theory Spec2Isabelle
  imports Main "HOL-Library.Sublist"
begin

section \<open>The system dataset plugin (plugins/sysdataset.py)\<close>

text \<open>
  The plugin keeps one ZFS dataset tree (\<open><pool>/.system\<close> and its children) mounted at
  \<open>/var/db/system\<close>, whichever pool hosts it, and moves it between pools.  Its methods
  are modelled as functions over an explicit \<open>world\<close> (what the methods change) and a
  read-only \<open>env\<close> (what the collaborators answer and how the external commands end).
  A raised exception is the \<open>Inl\<close> of a result, every side effect on a collaborator is
  appended to the world's \<open>trace\<close>.
\<close>

subsection \<open>Python values\<close>

text \<open>Truthiness of \<open>str\<close> and of \<open>Optional[str]\<close>, as \<open>if x\<close>, \<open>not x\<close> and \<open>or\<close> read them.\<close>

definition truthy :: "string \<Rightarrow> bool" where
  "truthy s = (s \<noteq> [])"

definition truthy_opt :: "string option \<Rightarrow> bool" where
  "truthy_opt x = (case x of None \<Rightarrow> False | Some s \<Rightarrow> truthy s)"

definition SYSDATASET_PATH :: string where
  "SYSDATASET_PATH = ''/var/db/system''"

subsection \<open>Dataset topology\<close>

text \<open>
  \<open>__get_datasets(pool, uuid)\<close>: the root dataset with the empty label, then one child per
  label.  The last label is \<open>CTDBConfig.CTDB_VOL_NAME.value\<close>, a constant of another
  module; it is the parameter \<open>vol\<close>.
\<close>

definition child_labels :: "string \<Rightarrow> string \<Rightarrow> string list" where
  "child_labels vol uuid =
     [''cores'', ''samba4'', ''syslog-'' @ uuid, ''rrd-'' @ uuid, ''configs-'' @ uuid,
      ''webui'', ''services'', ''glusterd'', vol]"

definition get_datasets :: "string \<Rightarrow> string \<Rightarrow> string \<Rightarrow> (string \<times> string) list" where
  "get_datasets vol pool uuid =
     (pool @ ''/.system'', []) #
     map (\<lambda>i. (pool @ ''/.system/'' @ i, i)) (child_labels vol uuid)"

subsection \<open>Exceptions, effects, and the state the plugin works on\<close>

datatype errno = EINVAL | EPERM | ENOENT

text \<open>
  The exceptions the methods raise or let through.  \<open>ValidationErrors\<close> carries the list
  that \<open>verrors.add(attribute, message, errno)\<close> built; \<open>add\<close> defaults to \<open>EINVAL\<close>.
\<close>

datatype exn =
    CallError string
  | CalledProcessError "string list" string
  | TypeError string
  | KeyError string
  | OSError string
  | OverflowError string
  | ZfsException string
  | ValidationErrors "(string \<times> string \<times> errno) list"

text \<open>The row of \<open>system_systemdataset\<close> (\<open>SystemDatasetModel\<close>).\<close>

record db_row =
  sys_pool :: string
  sys_syslog_usedataset :: bool
  sys_uuid :: string
  sys_uuid_b :: "string option"

text \<open>
  What the plugin asks of its collaborators, in the order it asks: commands it runs
  (\<open>run\<close>, \<open>subprocess.run\<close>, \<open>Popen\<close>), filesystem calls, and \<open>middleware.call\<close>s that
  change something.  Queries leave no event.  \<open>DatastoreUpdate\<close> carries the row as the
  update leaves it.
\<close>

datatype event =
    Run "string list"
  | Shell string
  | Mkdir string
  | Makedirs string
  | Rmdir string
  | Unlink string
  | Chmod string nat
  | ZfsCreate string "(string \<times> string) list"
  | ZfsDelete string
  | ZfsUpdate string "(string \<times> string) list"
  | DatastoreUpdate db_row
  | ServiceStop string
  | ServiceStart string
  | ServiceRestart string
  | ServiceRestartAsync string
  | CachePut string bool
  | CachePop string
  | StopLogging
  | GlusterEventsdInit
  | EtcGenerate string
  | SmbSetupDirectories
  | SmbConfigure bool
  | CallRemote string
  | LogDebug string "string list"
  | LogWarning string "string list"
  | LogError string "string list"

datatype node = Dir | File

text \<open>
  A ZFS dataset as the queries return it: \<open>properties[k]['value']\<close> for the string
  properties, \<open>properties['used']['parsed']\<close> and \<open>['available']['parsed']\<close> as numbers,
  and the encryption fields \<open>pool.dataset.query\<close> filters on.
\<close>

record dataset =
  ds_name :: string
  ds_props :: "(string \<times> string) list"
  ds_used :: nat
  ds_available :: nat
  ds_encrypted :: bool
  ds_key_format :: string
  ds_locked :: bool

text \<open>
  The collaborators' answers that no method of the plugin changes.  \<open>cmd_result\<close> is
  the return code and stderr of an external command line; the \<open>zfs_*_error\<close> fields
  say which ZFS calls raise, \<open>os_error op path\<close> which filesystem calls do.  \<open>ctdb_vol_name\<close> is
  \<open>CTDBConfig.CTDB_VOL_NAME.value\<close> and \<open>format_size\<close> is
  \<open>middlewared.utils.size.format_size\<close>, both defined outside this plugin.
\<close>

record env =
  ctdb_vol_name :: string
  boot_pool_name :: string
  is_enterprise :: bool
  failover_node :: string
  failover_licensed :: bool
  failover_status :: string
  uuid4_hex :: string
  system_ready :: bool
  ad_state :: string
  run_migration :: bool
  pool_query :: "string list"
  service_enabled :: "string \<Rightarrow> bool"
  format_size :: "nat \<Rightarrow> string"
  cmd_result :: "string list \<Rightarrow> int \<times> string"
  zfs_create_error :: "string \<Rightarrow> string option"
  zfs_delete_error :: "string \<Rightarrow> string option"
  zfs_update_error :: "string \<Rightarrow> string option"
  os_error :: "string \<Rightarrow> string \<Rightarrow> string option"
  gluster_init_error :: "string option"
  processes_using_paths :: "string \<Rightarrow> string"
  call_remote_error :: "string option"

text \<open>
  What the methods change: the database row, the class attribute \<open>force_pool\<close>, the ZFS
  datasets, the mount table (device and mountpoint, as \<open>psutil.disk_partitions\<close> lists
  it), the filesystem nodes, the running services, the cache key \<open>use_syslog_dataset\<close>,
  and the trace of effects.
\<close>

record world =
  db :: db_row
  force_pool :: "string option"
  datasets :: "dataset list"
  mounts :: "(string \<times> string) list"
  fs :: "(string \<times> node) list"
  started :: "string \<Rightarrow> bool"
  use_syslog_dataset :: "bool option"
  trace :: "event list"

type_synonym 'a result = "(exn + 'a) \<times> world"

definition bind :: "'a result \<Rightarrow> ('a \<Rightarrow> world \<Rightarrow> 'b result) \<Rightarrow> 'b result" where
  "bind r f = (case r of (Inl e, w) \<Rightarrow> (Inl e, w) | (Inr x, w) \<Rightarrow> f x w)"

definition emit :: "event \<Rightarrow> world \<Rightarrow> world" where
  "emit e w = w\<lparr>trace := trace w @ [e]\<rparr>"

subsection \<open>Filesystem and mount table\<close>

definition is_mount :: "world \<Rightarrow> string \<Rightarrow> bool" where
  "is_mount w p = (p \<in> snd ` set (mounts w))"

definition is_dir :: "world \<Rightarrow> string \<Rightarrow> bool" where
  "is_dir w p = (map_of (fs w) p = Some Dir)"

definition exists :: "world \<Rightarrow> string \<Rightarrow> bool" where
  "exists w p = (map_of (fs w) p \<noteq> None)"

text \<open>\<open>path_under p m\<close>: \<open>m\<close> is the path \<open>p\<close> or lies below it.\<close>

definition path_under :: "string \<Rightarrow> string \<Rightarrow> bool" where
  "path_under p m = (m = p \<or> prefix (p @ ''/'') m)"

text \<open>
  The filesystem is a table from paths to nodes; it is not kept per mounted
  filesystem.  \<open>Path.mkdir()\<close> and \<open>os.mkdir\<close>: the directory exists afterwards, or the
  call raises.
\<close>

definition fs_set :: "string \<Rightarrow> node \<Rightarrow> world \<Rightarrow> world" where
  "fs_set p n w = w\<lparr>fs := (p, n) # filter (\<lambda>e. fst e \<noteq> p) (fs w)\<rparr>"

definition fs_remove :: "string \<Rightarrow> world \<Rightarrow> world" where
  "fs_remove p w = w\<lparr>fs := filter (\<lambda>e. fst e \<noteq> p) (fs w)\<rparr>"

definition mkdir :: "env \<Rightarrow> string \<Rightarrow> world \<Rightarrow> unit result" where
  "mkdir env p w =
     (case os_error env ''mkdir'' p of
        Some msg \<Rightarrow> (Inl (OSError msg), w)
      | None \<Rightarrow> (Inr (), emit (Mkdir p) (fs_set p Dir w)))"

text \<open>
  The effect of a command that exits with 0 on the mount table.  \<open>mount\<close> adds an
  entry; \<open>umount <device>\<close> removes the device's entries, \<open>umount <path>\<close> the entries at
  the path, \<open>umount -R <path>\<close> the entries at and below it.
\<close>

definition add_mount :: "string \<Rightarrow> string \<Rightarrow> world \<Rightarrow> world" where
  "add_mount dev mp w = w\<lparr>mounts := mounts w @ [(dev, mp)]\<rparr>"

definition unmount_device :: "string \<Rightarrow> world \<Rightarrow> world" where
  "unmount_device dev w = w\<lparr>mounts := filter (\<lambda>m. fst m \<noteq> dev) (mounts w)\<rparr>"

definition unmount_path :: "string \<Rightarrow> world \<Rightarrow> world" where
  "unmount_path p w = w\<lparr>mounts := filter (\<lambda>m. snd m \<noteq> p) (mounts w)\<rparr>"

definition unmount_tree :: "string \<Rightarrow> world \<Rightarrow> world" where
  "unmount_tree p w = w\<lparr>mounts := filter (\<lambda>m. \<not> path_under p (snd m)) (mounts w)\<rparr>"

text \<open>
  \<open>run(*cmd, check=...)\<close> of \<open>middlewared.utils\<close> (\<open>check\<close> defaults to true there) and
  \<open>subprocess.run\<close>: the command is run; with a non-zero return code it raises
  \<open>CalledProcessError\<close> if \<open>check\<close>, and returns the code and stderr otherwise.
  \<open>effect\<close> is what the command does to the world when it exits with 0.
\<close>

definition run :: "env \<Rightarrow> bool \<Rightarrow> string list \<Rightarrow> (world \<Rightarrow> world) \<Rightarrow> world \<Rightarrow> (int \<times> string) result" where
  "run env check cmd effect w =
     (let w1 = emit (Run cmd) w; cp = cmd_result env cmd
      in if fst cp = 0 then (Inr cp, effect w1)
         else if check then (Inl (CalledProcessError cmd (snd cp)), w1)
         else (Inr cp, w1))"

text \<open>\<open>sub in s\<close> for strings.\<close>

fun contains :: "string \<Rightarrow> string \<Rightarrow> bool" where
  "contains sub [] = (sub = [])"
| "contains sub (c # cs) = (prefix sub (c # cs) \<or> contains sub cs)"

text \<open>A \<open>for\<close> loop whose body may raise: the first exception ends the loop.\<close>

primrec for_each :: "('a \<Rightarrow> world \<Rightarrow> unit result) \<Rightarrow> 'a list \<Rightarrow> world \<Rightarrow> unit result" where
  "for_each f [] = (\<lambda>w. (Inr (), w))"
| "for_each f (x # xs) = (\<lambda>w. bind (f x w) (\<lambda>_. for_each f xs))"

subsection \<open>Mounting: \<open>__mount\<close>\<close>

text \<open>
  The inner \<open>is_mounted(mp)\<close>: true for a mountpoint; otherwise the directory is created
  if it is missing, and the answer is false.
\<close>

definition is_mounted :: "env \<Rightarrow> string \<Rightarrow> world \<Rightarrow> bool result" where
  "is_mounted env mp w =
     (if is_mount w mp then (Inr True, w)
      else if \<not> is_dir w mp then bind (mkdir env mp w) (\<lambda>_ w'. (Inr False, w'))
      else (Inr False, w))"

definition mountpoint_of :: "string \<Rightarrow> string \<Rightarrow> string" where
  "mountpoint_of path name = (if truthy name then path @ ''/'' @ name else path)"

text \<open>The loop of \<open>__mount\<close> with its flag \<open>mounted\<close>; \<open>continue\<close> is the first branch.\<close>

fun mount_loop :: "env \<Rightarrow> string \<Rightarrow> (string \<times> string) list \<Rightarrow> bool \<Rightarrow> world \<Rightarrow> bool result" where
  "mount_loop env path [] mounted w = (Inr mounted, w)"
| "mount_loop env path ((dataset, name) # rest) mounted w =
     (let mountpoint = mountpoint_of path name
      in bind (is_mounted env mountpoint w) (\<lambda>already w1.
           if already then mount_loop env path rest mounted w1
           else bind (run env True [''mount'', ''-t'', ''zfs'', dataset, mountpoint]
                        (add_mount dataset mountpoint) w1)
                  (\<lambda>_ w2. mount_loop env path rest True w2)))"

text \<open>
  After the loop \<open>gluster.eventsd.init\<close> is run as a job and awaited; its error is
  logged, not raised.
\<close>

definition gluster_eventsd_init :: "env \<Rightarrow> world \<Rightarrow> world" where
  "gluster_eventsd_init env w =
     (let w1 = emit GlusterEventsdInit w
      in case gluster_init_error env of
           None \<Rightarrow> w1
         | Some err \<Rightarrow>
             emit (LogError ''Failed to initialize %s directory with error: %s''
                     [ctdb_vol_name env, err]) w1)"

definition mount :: "env \<Rightarrow> string \<Rightarrow> string \<Rightarrow> string \<Rightarrow> world \<Rightarrow> bool result" where
  "mount env pool uuid path w =
     bind (mount_loop env path (get_datasets (ctdb_vol_name env) pool uuid) False w)
       (\<lambda>mounted w1. (Inr mounted, gluster_eventsd_init env w1))"

subsection \<open>Unmounting: \<open>__umount\<close>\<close>

text \<open>The inner \<open>get_mp(dataset)\<close>: the mountpoint of the first partition on the device.\<close>

definition get_mp :: "world \<Rightarrow> string \<Rightarrow> string option" where
  "get_mp w dataset = map_option snd (find (\<lambda>partition. fst partition = dataset) (mounts w))"

text \<open>
  \<open>middleware.run_in_thread(method, *args)\<close> calls \<open>method(*args)\<close> in a worker thread;
  every other call site of the plugin hands it a function object.  What is handed
  over is a Python value: a function, or, as in \<open>__umount\<close>, the string \<open>'get_mp'\<close>.
  A string is not callable, and the call raises \<open>TypeError\<close>.
\<close>

datatype ('a, 'b) py_callable = PyFunction "'a \<Rightarrow> 'b" | PyStr string

definition run_in_thread :: "('a, 'b) py_callable \<Rightarrow> 'a \<Rightarrow> exn + 'b" where
  "run_in_thread method arg =
     (case method of
        PyFunction f \<Rightarrow> Inr (f arg)
      | PyStr s \<Rightarrow> Inl (TypeError ''the first argument must be callable''))"

definition py_repr :: "string \<Rightarrow> string" where
  "py_repr s = [CHR 0x27] @ s @ [CHR 0x27]"

text \<open>
  One pass of the loop body: \<open>umount <flags> <dataset>\<close> with the handler for
  \<open>CalledProcessError\<close>.  \<open>Inr ()\<close> is both a clean unmount and the \<open>continue\<close> of
  "already unmounted".
\<close>

definition umount_one :: "env \<Rightarrow> string \<Rightarrow> string \<times> string \<Rightarrow> world \<Rightarrow> unit result" where
  "umount_one env flags ds w =
     (let dataset = fst ds
      in case run env True [''umount'', flags, dataset] (unmount_device dataset) w of
           (Inr _, w1) \<Rightarrow> (Inr (), w1)
         | (Inl (CalledProcessError cmd stderr), w1) \<Rightarrow>
             if contains ''no mount point specified'' stderr then (Inr (), w1)
             else
               let error = ''Unable to umount '' @ dataset @ '': '' @ stderr
               in if contains ''target is busy'' stderr then
                    (case run_in_thread (PyStr ''get_mp'' :: (string, string option) py_callable) dataset of
                       Inl e \<Rightarrow> (Inl e, w1)
                     | Inr None \<Rightarrow> (Inl (CallError error), w1)
                     | Inr (Some mountpoint) \<Rightarrow>
                         (Inl (CallError (error @ [CHR 0x0A] @ ''The following processes are using ''
                                  @ py_repr mountpoint @ '': ''
                                  @ processes_using_paths env mountpoint)), w1))
                  else (Inl (CallError error), w1)
         | (Inl e, w1) \<Rightarrow> (Inl e, w1))"

definition umount_flags :: "env \<Rightarrow> string" where
  "umount_flags env = (if \<not> failover_licensed env then ''-f'' else ''-l'')"

definition umount :: "env \<Rightarrow> string \<Rightarrow> string \<Rightarrow> world \<Rightarrow> unit result" where
  "umount env pool uuid w =
     (let w1 = snd (run env False [''umount'', ''/var/lib/systemd/coredump'']
                      (unmount_path ''/var/lib/systemd/coredump'') w);
          flags = umount_flags env
      in for_each (umount_one env flags) (rev (get_datasets (ctdb_vol_name env) pool uuid)) w1)"

subsection \<open>Creating the datasets: \<open>__setup_datasets\<close>\<close>

definition zfs_get :: "world \<Rightarrow> string \<Rightarrow> dataset option" where
  "zfs_get w name = find (\<lambda>d. ds_name d = name) (datasets w)"

text \<open>
  \<open>zfs.dataset.create\<close>, \<open>zfs.dataset.delete\<close> with \<open>force\<close> and \<open>recursive\<close>, and
  \<open>zfs.dataset.update\<close>.  Each call is traced, then raises or takes effect.  Creating
  an existing dataset and destroying a missing one raise.  Of a created dataset only
  the name and the requested properties are known; the counters start at 0.  A
  destroyed dataset takes its children and their mounts with it.
\<close>

definition zfs_create :: "env \<Rightarrow> string \<Rightarrow> (string \<times> string) list \<Rightarrow> world \<Rightarrow> unit result" where
  "zfs_create env name props w =
     (let w1 = emit (ZfsCreate name props) w
      in case zfs_create_error env name of
           Some msg \<Rightarrow> (Inl (ZfsException msg), w1)
         | None \<Rightarrow>
             if zfs_get w1 name \<noteq> None then (Inl (ZfsException ''dataset already exists''), w1)
             else (Inr (), w1\<lparr>datasets := datasets w1 @
                     [\<lparr>ds_name = name, ds_props = props, ds_used = 0, ds_available = 0,
                       ds_encrypted = False, ds_key_format = [], ds_locked = False\<rparr>]\<rparr>))"

definition zfs_delete :: "env \<Rightarrow> string \<Rightarrow> world \<Rightarrow> unit result" where
  "zfs_delete env name w =
     (let w1 = emit (ZfsDelete name) w
      in case zfs_delete_error env name of
           Some msg \<Rightarrow> (Inl (ZfsException msg), w1)
         | None \<Rightarrow>
             if zfs_get w1 name = None then (Inl (ZfsException ''dataset does not exist''), w1)
             else (Inr (), w1\<lparr>datasets := filter (\<lambda>d. \<not> path_under name (ds_name d)) (datasets w1),
                               mounts := filter (\<lambda>m. \<not> path_under name (fst m)) (mounts w1)\<rparr>))"

definition set_props :: "(string \<times> string) list \<Rightarrow> dataset \<Rightarrow> dataset" where
  "set_props new d = d\<lparr>ds_props := new @ filter (\<lambda>kv. fst kv \<notin> fst ` set new) (ds_props d)\<rparr>"

definition zfs_update :: "env \<Rightarrow> string \<Rightarrow> (string \<times> string) list \<Rightarrow> world \<Rightarrow> unit result" where
  "zfs_update env name props w =
     (let w1 = emit (ZfsUpdate name props) w
      in case zfs_update_error env name of
           Some msg \<Rightarrow> (Inl (ZfsException msg), w1)
         | None \<Rightarrow> (Inr (), w1\<lparr>datasets :=
                       map (\<lambda>d. if ds_name d = name then set_props props d else d) (datasets w1)\<rparr>))"

text \<open>A dict built from a list of items: a later item replaces an earlier one.\<close>

definition dict_of :: "('k \<times> 'v) list \<Rightarrow> 'k \<Rightarrow> 'v option" where
  "dict_of items = map_of (rev items)"

text \<open>
  The dict comprehension \<open>{k: {'value': v} for k, v in props.items() if
  datasets_prop[dataset][k]['value'] != v}\<close>; a property the dataset does not list is a
  \<open>KeyError\<close>.
\<close>

fun update_props_dict :: "(string \<times> string) list \<Rightarrow> (string \<times> string) list \<Rightarrow> exn + (string \<times> string) list" where
  "update_props_dict cur [] = Inr []"
| "update_props_dict cur ((k, v) # ps) =
     (case map_of cur k of
        None \<Rightarrow> Inl (KeyError k)
      | Some c \<Rightarrow>
          (case update_props_dict cur ps of
             Inl e \<Rightarrow> Inl e
           | Inr r \<Rightarrow> Inr (if c \<noteq> v then (k, v) # r else r)))"

definition dataset_props :: "string \<Rightarrow> (string \<times> string) list" where
  "dataset_props dataset =
     [(''mountpoint'', ''legacy''), (''readonly'', ''off''), (''snapdir'', ''hidden'')]
     @ (if suffix ''/cores'' dataset then [(''quota'', ''1G'')] else [])"

text \<open>
  The loop body of \<open>__setup_datasets\<close> for one dataset name.  \<open>datasets_prop\<close> is the
  dict read once before the loop.
\<close>

definition setup_dataset :: "env \<Rightarrow> (string \<Rightarrow> dataset option) \<Rightarrow> string \<Rightarrow> world \<Rightarrow> unit result" where
  "setup_dataset env datasets_prop dataset w =
     (let props = dataset_props dataset;
          is_cores_ds = suffix ''/cores'' dataset
      in case datasets_prop dataset of
           None \<Rightarrow> zfs_create env dataset props w
         | Some d \<Rightarrow>
             if is_cores_ds \<and> ds_used d \<ge> 1024 ^ 3 then
               (case bind (zfs_delete env dataset w) (\<lambda>_. zfs_create env dataset props) of
                  (Inr _, w1) \<Rightarrow> (Inr (), w1)
                | (Inl e, w1) \<Rightarrow>
                    (Inr (), emit (LogWarning ''Failed to replace dataset [%s].'' [dataset]) w1))
             else
               (case update_props_dict (ds_props d) props of
                  Inl e \<Rightarrow> (Inl e, w)
                | Inr update_props \<Rightarrow>
                    if update_props \<noteq> [] then zfs_update env dataset update_props w
                    else (Inr (), w)))"

text \<open>
  \<open>{i['id']: i['properties'] for i in zfs.dataset.query([('id', 'in', datasets)])}\<close>, the
  dict read before the loop.
\<close>

definition query_datasets_prop :: "world \<Rightarrow> string list \<Rightarrow> string \<Rightarrow> dataset option" where
  "query_datasets_prop w names =
     dict_of (map (\<lambda>d. (ds_name d, d)) (filter (\<lambda>d. ds_name d \<in> set names) (datasets w)))"

definition setup_datasets :: "env \<Rightarrow> string \<Rightarrow> string \<Rightarrow> world \<Rightarrow> unit result" where
  "setup_datasets env pool uuid w =
     (let names = map fst (get_datasets (ctdb_vol_name env) pool uuid);
          datasets_prop = query_datasets_prop w names
      in for_each (setup_dataset env datasets_prop) names w)"

subsection \<open>The quiesce guard: \<open>_release_system_dataset\<close>\<close>

text \<open>
  The service supervisor: \<open>service.stop\<close>, \<open>service.start\<close> and \<open>service.restart\<close> are
  traced and set the running state; \<open>service.started_or_enabled\<close> is true for a service
  that runs or is enabled.
\<close>

definition service_stop :: "string \<Rightarrow> world \<Rightarrow> world" where
  "service_stop i w = emit (ServiceStop i) (w\<lparr>started := (started w)(i := False)\<rparr>)"

definition service_start :: "string \<Rightarrow> world \<Rightarrow> world" where
  "service_start i w = emit (ServiceStart i) (w\<lparr>started := (started w)(i := True)\<rparr>)"

definition service_restart :: "string \<Rightarrow> world \<Rightarrow> world" where
  "service_restart i w = emit (ServiceRestart i) (w\<lparr>started := (started w)(i := True)\<rparr>)"

definition started_or_enabled :: "env \<Rightarrow> world \<Rightarrow> string \<Rightarrow> bool" where
  "started_or_enabled env w i = (started w i \<or> service_enabled env i)"

text \<open>The list \<open>restart\<close> as the five probes build it.\<close>

definition restart_list :: "env \<Rightarrow> world \<Rightarrow> string list" where
  "restart_list env w =
     (let restart = [''collectd'', ''rrdcached'', ''syslogd''];
          restart = (if started w ''cifs'' then ''cifs'' # restart else restart);
          restart = (if started w ''glusterd'' then ''glusterd'' # restart else restart);
          restart = (if started_or_enabled env w ''webdav'' then restart @ [''webdav''] else restart);
          restart = (if started w ''open-vm-tools'' then restart @ [''open-vm-tools''] else restart);
          restart = (if started w ''idmap'' then restart @ [''idmap''] else restart)
      in restart)"

text \<open>What runs before the \<open>yield\<close>, and what the \<open>finally\<close> runs.\<close>

definition release_enter :: "string list \<Rightarrow> world \<Rightarrow> world" where
  "release_enter restart w =
     (let w1 = emit (CachePut ''use_syslog_dataset'' False) (w\<lparr>use_syslog_dataset := Some False\<rparr>);
          w2 = service_restart ''syslogd'' w1;
          w3 = emit StopLogging w2
      in fold service_stop restart w3)"

definition release_exit :: "string list \<Rightarrow> world \<Rightarrow> world" where
  "release_exit restart w =
     (let w1 = emit (CachePop ''use_syslog_dataset'') (w\<lparr>use_syslog_dataset := None\<rparr>)
      in fold service_start (rev restart) w1)"

text \<open>
  The context manager around a block: the block's result, an exception included, is
  the result of the whole after the \<open>finally\<close> has run.
\<close>

definition release_system_dataset :: "env \<Rightarrow> (world \<Rightarrow> 'a result) \<Rightarrow> world \<Rightarrow> 'a result" where
  "release_system_dataset env block w =
     (let restart = restart_list env w;
          r = block (release_enter restart w)
      in (fst r, release_exit restart (snd r)))"

subsection \<open>The resolved configuration: \<open>config_extend\<close>\<close>

record config =
  cfg_pool :: string
  cfg_pool_set :: bool
  cfg_uuid :: string
  cfg_uuid_b :: "string option"
  cfg_basename :: string
  cfg_uuid_a :: string
  cfg_syslog :: bool
  cfg_path :: "string option"

text \<open>\<open>a or b\<close> where \<open>a\<close> may be \<open>None\<close> and \<open>b\<close> is a string.\<close>

definition or_else :: "string option \<Rightarrow> string \<Rightarrow> string" where
  "or_else a b = (case a of None \<Rightarrow> b | Some s \<Rightarrow> if truthy s then s else b)"

definition datastore_update :: "(db_row \<Rightarrow> db_row) \<Rightarrow> world \<Rightarrow> world" where
  "datastore_update f w = emit (DatastoreUpdate (f (db w))) (w\<lparr>db := f (db w)\<rparr>)"

definition sysdataset_exists_and_mounted :: "world \<Rightarrow> bool" where
  "sysdataset_exists_and_mounted w =
     (if \<not> exists w SYSDATASET_PATH \<or> \<not> is_mount w SYSDATASET_PATH then False else True)"

text \<open>
  \<open>config_extend(config)\<close> on the database row.  A missing uuid is generated
  (\<open>uuid4_hex\<close> is what \<open>uuid.uuid4().hex\<close> returns) and written back, to \<open>sys_uuid_b\<close> on
  node B of an enterprise pair and to \<open>sys_uuid\<close> otherwise.
\<close>

definition config_extend :: "env \<Rightarrow> db_row \<Rightarrow> world \<Rightarrow> config \<times> world" where
  "config_extend env row w =
     (let pool_set = truthy (sys_pool row);
          pool = or_else (force_pool w) (or_else (Some (sys_pool row)) (boot_pool_name env));
          basename = pool @ ''/.system'';
          uuid_a = sys_uuid row;
          is_node_b = (is_enterprise env \<and> failover_node env = ''B'');
          uuid0 = (if is_node_b then sys_uuid_b row else Some (sys_uuid row));
          uuid = or_else uuid0 (uuid4_hex env);
          uuid_b = (if \<not> truthy_opt uuid0 \<and> is_node_b then Some uuid else sys_uuid_b row);
          w1 = (if truthy_opt uuid0 then w
                else if is_node_b then datastore_update (\<lambda>r. r\<lparr>sys_uuid_b := Some uuid\<rparr>) w
                else datastore_update (\<lambda>r. r\<lparr>sys_uuid := uuid\<rparr>) w);
          path = (if \<not> sysdataset_exists_and_mounted w1 then None else Some SYSDATASET_PATH)
      in (\<lparr>cfg_pool = pool, cfg_pool_set = pool_set, cfg_uuid = uuid, cfg_uuid_b = uuid_b,
           cfg_basename = basename, cfg_uuid_a = uuid_a,
           cfg_syslog = sys_syslog_usedataset row, cfg_path = path\<rparr>, w1))"

text \<open>\<open>self.config()\<close>: the stored row, extended.\<close>

definition config :: "env \<Rightarrow> world \<Rightarrow> config \<times> world" where
  "config env w = config_extend env (db w) w"

subsection \<open>\<open>pool.dataset.query\<close> and \<open>pool_choices\<close>\<close>

definition pool_dataset_query :: "(dataset \<Rightarrow> bool) \<Rightarrow> world \<Rightarrow> dataset list" where
  "pool_dataset_query flt w = filter flt (datasets w)"

text \<open>A root dataset is named like its pool: no \<open>/\<close> in the name (\<open>retrieve_children: False\<close>).\<close>

definition is_root_dataset :: "dataset \<Rightarrow> bool" where
  "is_root_dataset d = (CHR ''/'' \<notin> set (ds_name d))"

definition passphrase_or_locked :: "dataset \<Rightarrow> bool" where
  "passphrase_or_locked d = (ds_key_format d = ''PASSPHRASE'' \<or> ds_locked d)"

text \<open>
  \<open>pool_choices()\<close>: the dict \<open>{p: p for p in set([boot_pool, current_pool] + [...])}\<close>,
  as a map from keys to values.
\<close>

definition pool_choices :: "env \<Rightarrow> world \<Rightarrow> (string \<Rightarrow> string option) \<times> world" where
  "pool_choices env w =
     (let boot_pool = boot_pool_name env;
          cw = config env w;
          current_pool = cfg_pool (fst cw);
          pools = pool_query env;
          valid_root_ds = map ds_name
            (pool_dataset_query
               (\<lambda>d. ds_key_format d \<noteq> ''PASSPHRASE'' \<and> \<not> ds_locked d \<and> is_root_dataset d) (snd cw));
          keys = set ([boot_pool, current_pool] @ filter (\<lambda>ds. ds \<in> set pools) valid_root_ds)
      in ((\<lambda>p. if p \<in> keys then Some p else None), snd cw))"

subsection \<open>The feasibility check: \<open>destination_pool_error\<close>\<close>

text \<open>
  \<open>int(used * 1.1)\<close> for a non-negative \<open>int\<close>, in IEEE 754 binary64 arithmetic, with
  integers only.  \<open>used\<close> is converted to the nearest double (ties to even), multiplied
  by the double nearest to 1.1, which is \<open>FLOAT_1_1 / 2^52\<close>, the product rounded to
  the nearest double, and \<open>int\<close> truncates.  A number beyond the doubles' range is an
  \<open>OverflowError\<close>.  \<open>round53 n\<close> is \<open>n\<close> rounded to 53 significant bits.
\<close>

fun bitlen :: "nat \<Rightarrow> nat" where
  "bitlen n = (if n = 0 then 0 else Suc (bitlen (n div 2)))"

declare bitlen.simps [simp del]

definition round_half_even :: "nat \<Rightarrow> nat \<Rightarrow> nat" where
  "round_half_even n s =
     (let q = n div 2 ^ s; r = n mod 2 ^ s; h = 2 ^ s div 2
      in if s = 0 then n
         else if h < r \<or> (r = h \<and> odd q) then q + 1
         else q)"

definition round53 :: "nat \<Rightarrow> nat" where
  "round53 n =
     (if bitlen n \<le> 53 then n
      else let s = bitlen n - 53 in round_half_even n s * 2 ^ s)"

definition FLOAT_1_1 :: nat where
  "FLOAT_1_1 = 4953959590107546"

definition int_times_1_1 :: "nat \<Rightarrow> exn + nat" where
  "int_times_1_1 used =
     (let f = round53 used
      in if 2 ^ 1024 \<le> f then Inl (OverflowError ''int too large to convert to float'')
         else let p = round53 (f * FLOAT_1_1)
              in if 2 ^ 1076 \<le> p then Inl (OverflowError ''cannot convert float infinity to integer'')
                 else Inr (p div 2 ^ 52))"

text \<open>
  \<open>destination_pool_error(new_pool)\<close>: \<open>None\<close> for "no error", else the message.
  \<open>zfs.dataset.get_instance\<close> raises \<open>InstanceNotFound\<close> for a missing dataset, which
  both handlers catch.
\<close>

definition destination_pool_error :: "env \<Rightarrow> string \<Rightarrow> world \<Rightarrow> string option result" where
  "destination_pool_error env new_pool w =
     (let cw = config env w; w1 = snd cw
      in case zfs_get w1 (cfg_basename (fst cw)) of
           None \<Rightarrow> (Inr None, w1)
         | Some existing_dataset \<Rightarrow>
             (case zfs_get w1 new_pool of
                None \<Rightarrow> (Inr (Some (''Dataset '' @ new_pool @ '' does not exist'')), w1)
              | Some new_dataset \<Rightarrow>
                  (let available = ds_available new_dataset
                   in case int_times_1_1 (ds_used existing_dataset) of
                        Inl e \<Rightarrow> (Inl e, w1)
                      | Inr used \<Rightarrow>
                          if available < used then
                            (Inr (Some (''Insufficient disk space available on '' @ new_pool
                                   @ '' ('' @ format_size env available @ ''). Need ''
                                   @ format_size env used)), w1)
                          else (Inr None, w1))))"

subsection \<open>Automatic pool selection\<close>

text \<open>
  The \<open>for ... else\<close> of \<open>do_update\<close> over \<open>pool.query\<close>: the first pool that is neither
  excluded nor has a passphrase-encrypted or locked root dataset and passes the
  feasibility check; the empty string when the loop runs out.
\<close>

fun auto_select_pool :: "env \<Rightarrow> string option \<Rightarrow> string list \<Rightarrow> world \<Rightarrow> string result" where
  "auto_select_pool env pool_exclude [] w = (Inr [], w)"
| "auto_select_pool env pool_exclude (name # rest) w =
     (if pool_exclude = Some name
         \<or> pool_dataset_query (\<lambda>d. ds_name d = name \<and> passphrase_or_locked d) w \<noteq> []
      then auto_select_pool env pool_exclude rest w
      else bind (destination_pool_error env name w) (\<lambda>error w1.
             if truthy_opt error then auto_select_pool env pool_exclude rest w1
             else (Inr name, w1)))"

text \<open>\<open>_query_pool_for_system_dataset(exclude_pool)\<close>; running out of pools returns \<open>None\<close>.\<close>

fun query_pool_loop :: "string option \<Rightarrow> string list \<Rightarrow> world \<Rightarrow> string option" where
  "query_pool_loop exclude_pool [] w = None"
| "query_pool_loop exclude_pool (p # ps) w =
     (if (truthy_opt exclude_pool \<and> Some p = exclude_pool)
         \<or> pool_dataset_query (\<lambda>d. ds_name d = p \<and> passphrase_or_locked d) w \<noteq> []
      then query_pool_loop exclude_pool ps w
      else Some p)"

definition query_pool_for_system_dataset :: "env \<Rightarrow> string option \<Rightarrow> world \<Rightarrow> string option" where
  "query_pool_for_system_dataset env exclude_pool w = query_pool_loop exclude_pool (pool_query env) w"

subsection \<open>Filesystem calls of \<open>setup\<close> and \<open>migrate\<close>\<close>

definition unlink :: "env \<Rightarrow> string \<Rightarrow> world \<Rightarrow> unit result" where
  "unlink env p w =
     (case map_of (fs w) p of
        None \<Rightarrow> (Inl (OSError ''No such file or directory''), w)
      | Some Dir \<Rightarrow> (Inl (OSError ''Is a directory''), w)
      | Some File \<Rightarrow>
          (case os_error env ''unlink'' p of
             Some msg \<Rightarrow> (Inl (OSError msg), w)
           | None \<Rightarrow> (Inr (), emit (Unlink p) (fs_remove p w))))"

definition makedirs :: "env \<Rightarrow> bool \<Rightarrow> string \<Rightarrow> world \<Rightarrow> unit result" where
  "makedirs env exist_ok p w =
     (if is_dir w p then (if exist_ok then (Inr (), w) else (Inl (OSError ''File exists''), w))
      else if exists w p then (Inl (OSError ''File exists''), w)
      else case os_error env ''makedirs'' p of
             Some msg \<Rightarrow> (Inl (OSError msg), w)
           | None \<Rightarrow> (Inr (), emit (Makedirs p) (fs_set p Dir w)))"

definition rmdir :: "env \<Rightarrow> string \<Rightarrow> world \<Rightarrow> unit result" where
  "rmdir env p w =
     (case os_error env ''rmdir'' p of
        Some msg \<Rightarrow> (Inl (OSError msg), w)
      | None \<Rightarrow> (Inr (), emit (Rmdir p) (fs_remove p w)))"

definition chmod :: "env \<Rightarrow> string \<Rightarrow> nat \<Rightarrow> world \<Rightarrow> unit result" where
  "chmod env p mode w =
     (case os_error env ''chmod'' p of
        Some msg \<Rightarrow> (Inl (OSError msg), w)
      | None \<Rightarrow> (Inr (), emit (Chmod p mode) w))"

definition is_child :: "string \<Rightarrow> string \<Rightarrow> bool" where
  "is_child p q = (prefix (p @ ''/'') q \<and> CHR ''/'' \<notin> set (drop (length p + 1) q))"

definition iterdir :: "world \<Rightarrow> string \<Rightarrow> string list" where
  "iterdir w p = map fst (filter (\<lambda>e. is_child p (fst e)) (fs w))"

text \<open>
  A command started with \<open>Popen(..., shell=True)\<close> and awaited with \<open>communicate()\<close>;
  its return code is not read.
\<close>

definition popen_shell :: "env \<Rightarrow> string \<Rightarrow> (world \<Rightarrow> world) \<Rightarrow> world \<Rightarrow> world" where
  "popen_shell env cmd effect w =
     (let w1 = emit (Shell cmd) w
      in if fst (cmd_result env [cmd]) = 0 then effect w1 else w1)"

definition zfs_destroy_r :: "string \<Rightarrow> world \<Rightarrow> world" where
  "zfs_destroy_r name w =
     w\<lparr>datasets := filter (\<lambda>d. \<not> path_under name (ds_name d)) (datasets w),
       mounts := filter (\<lambda>m. \<not> path_under name (fst m)) (mounts w)\<rparr>"

text \<open>The device a bind mount of \<open>src\<close> is listed with: the one mounted at \<open>src\<close>.\<close>

definition bind_device :: "world \<Rightarrow> string \<Rightarrow> string" where
  "bind_device w src =
     (case find (\<lambda>m. snd m = src) (rev (mounts w)) of None \<Rightarrow> src | Some m \<Rightarrow> fst m)"

subsection \<open>\<open>setup_core_path\<close>\<close>

definition COREDUMP_PATH :: string where
  "COREDUMP_PATH = ''/var/lib/systemd/coredump''"

definition setup_core_path :: "env \<Rightarrow> string \<Rightarrow> world \<Rightarrow> unit result" where
  "setup_core_path env corepath w =
     (if \<not> exists w corepath then (Inr (), w)
      else bind (chmod env corepath 509 w) (\<lambda>_ w1.
        let w2 = (if run_migration env then
                    (case for_each (unlink env) (iterdir w1 corepath) w1 of
                       (Inr _, w') \<Rightarrow> w'
                     | (Inl e, w') \<Rightarrow> emit (LogWarning ''Failed to clear old core files.'' []) w')
                  else w1);
            w3 = snd (run env False [''umount'', COREDUMP_PATH] (unmount_path COREDUMP_PATH) w2)
        in bind (makedirs env True COREDUMP_PATH w3) (\<lambda>_ w4.
             (Inr (), snd (run env False [''mount'', ''--bind'', corepath, COREDUMP_PATH]
                             (add_mount (bind_device w4 corepath) COREDUMP_PATH) w4)))))"

subsection \<open>Migration between pools: \<open>migrate\<close>\<close>

definition SCRATCH_PATH :: string where
  "SCRATCH_PATH = ''/tmp/system.new''"

text \<open>
  The block guarded in \<open>migrate\<close>: the copy, and after a copy that returned 0 the
  switch to the new pool and the destruction of the old tree.
\<close>

definition rsync_cmd :: "string list" where
  "rsync_cmd = [''rsync'', ''-az'', SYSDATASET_PATH @ ''/'', SCRATCH_PATH]"

definition migrate_block :: "env \<Rightarrow> string \<Rightarrow> string \<Rightarrow> string \<Rightarrow> world \<Rightarrow> unit result" where
  "migrate_block env from to uuid w =
     (if truthy from then
        bind (run env False rsync_cmd (\<lambda>w. w) w)
          (\<lambda>cp w1.
             if fst cp = 0 then
               (let w2 = snd (run env False [''umount'', COREDUMP_PATH] (unmount_path COREDUMP_PATH) w1)
                in bind (umount env from uuid w2) (\<lambda>_ w3.
                   bind (umount env to uuid w3) (\<lambda>_ w4.
                   bind (mount env to uuid SYSDATASET_PATH w4) (\<lambda>_ w5.
                     let w6 = popen_shell env
                                (''zfs list -H -o name '' @ from @ ''/.system|xargs zfs destroy -r'')
                                (zfs_destroy_r (from @ ''/.system'')) w5
                     in rmdir env SCRATCH_PATH w6))))
             else (Inl (CallError (''Failed to rsync from '' @ SYSDATASET_PATH @ '': '' @ snd cp)), w1))
      else (Inr (), w))"

definition migrate :: "env \<Rightarrow> string \<Rightarrow> string \<Rightarrow> world \<Rightarrow> unit result" where
  "migrate env from to w =
     (let cw = config env w; uuid = cfg_uuid (fst cw)
      in bind (setup_datasets env to uuid (snd cw)) (\<lambda>_ w1.
           bind (if truthy from then
                   (if \<not> exists w1 SCRATCH_PATH then
                      bind (mkdir env SCRATCH_PATH w1) (\<lambda>_ w2. (Inr SCRATCH_PATH, w2))
                    else
                      (Inr SCRATCH_PATH,
                       snd (run env False [''umount'', ''-R'', SCRATCH_PATH] (unmount_tree SCRATCH_PATH) w1)))
                 else (Inr SYSDATASET_PATH, w1))
             (\<lambda>path w2.
                bind (mount env to uuid path w2) (\<lambda>_ w3.
                  release_system_dataset env (migrate_block env from to uuid) w3))))"

subsection \<open>Bringing the dataset up: \<open>setup\<close>\<close>

text \<open>
  The arguments of \<open>systemdataset.update\<close>: each key may be missing; \<open>pool\<close> may also be
  \<open>null\<close>.  \<open>data.get('pool_exclude')\<close> reads a missing key as \<open>None\<close>.
\<close>

record update_data =
  u_pool :: "string option option"
  u_pool_exclude :: "string option"
  u_syslog :: "bool option"

text \<open>\<open>device.split('/')[0]\<close>: the pool of a dataset name.\<close>

definition pool_of :: "string \<Rightarrow> string" where
  "pool_of device = takeWhile (\<lambda>c. c \<noteq> CHR ''/'') device"

definition get_mounted_pool :: "world \<Rightarrow> string option" where
  "get_mounted_pool w =
     (case find (\<lambda>p. snd p = SYSDATASET_PATH) (mounts w) of
        None \<Rightarrow> None
      | Some p \<Rightarrow> Some (pool_of (fst p)))"

definition setup_sysdataset_path :: "env \<Rightarrow> world \<Rightarrow> unit result" where
  "setup_sysdataset_path env w =
     (if is_dir w SYSDATASET_PATH then (Inr (), w)
      else bind (if exists w SYSDATASET_PATH then unlink env SYSDATASET_PATH w else (Inr (), w))
             (\<lambda>_. makedirs env False SYSDATASET_PATH))"

text \<open>
  The second half of \<open>setup\<close>, from the check of the pool's root dataset on: it runs when
  neither of the two early branches handed the work to \<open>systemdataset.update\<close>.
\<close>

definition setup_apply :: "env \<Rightarrow> config \<Rightarrow> world \<Rightarrow> config option result" where
  "setup_apply env config0 w =
     (let boot_pool = boot_pool_name env;
          cw = (if cfg_pool config0 \<noteq> boot_pool then
                  (case pool_dataset_query (\<lambda>d. ds_name d = cfg_pool config0 \<and> is_root_dataset d) w of
                     [] \<Rightarrow> None
                   | d # _ \<Rightarrow> if ds_locked d then None else Some (config0, w))
                else Some (config0, w));
          cw = (case cw of
                  Some c \<Rightarrow> c
                | None \<Rightarrow>
                    config env
                      ((emit (LogDebug
                          ''Root dataset for pool %r is not available, temporarily setting up system dataset on boot pool''
                          [cfg_pool config0]) w)\<lparr>force_pool := Some boot_pool\<rparr>));
          conf = fst cw; w1 = snd cw;
          mounted_pool = get_mounted_pool w1
      in bind
           (if truthy_opt mounted_pool \<and> mounted_pool \<noteq> Some (cfg_pool conf) then
              release_system_dataset env
                (\<lambda>w. bind (umount env (or_else mounted_pool []) (cfg_uuid conf) w) (\<lambda>_ w.
                      bind (setup_datasets env (cfg_pool conf) (cfg_uuid conf) w) (\<lambda>_ w.
                      bind (mount env (cfg_pool conf) (cfg_uuid conf) SYSDATASET_PATH w)
                        (\<lambda>m w. (Inr (Some m), w)))))
                (emit (LogDebug ''Abandoning dataset on %r in favor of %r''
                         [or_else mounted_pool [], cfg_pool conf]) w1)
            else bind (setup_datasets env (cfg_pool conf) (cfg_uuid conf) w1)
                   (\<lambda>_ w. (Inr None, w)))
           (\<lambda>mounted w2.
              bind (setup_sysdataset_path env w2) (\<lambda>_ w3.
              bind (case zfs_get w3 (cfg_basename conf) of
                      None \<Rightarrow> (Inr (), w3)
                    | Some d \<Rightarrow>
                        (case map_of (ds_props d) ''acltype'' of
                           None \<Rightarrow> (Inl (KeyError ''acltype''), w3)
                         | Some v \<Rightarrow>
                             if v \<noteq> ''off'' then
                               zfs_update env (cfg_basename conf) [(''acltype'', ''off'')] w3
                             else (Inr (), w3)))
                (\<lambda>_ w4.
              bind (case mounted of
                      Some m \<Rightarrow> (Inr m, w4)
                    | None \<Rightarrow> mount env (cfg_pool conf) (cfg_uuid conf) SYSDATASET_PATH w4)
                (\<lambda>mounted w5.
              bind (setup_core_path env (SYSDATASET_PATH @ ''/cores'') w5) (\<lambda>_ w6.
                let w7 = emit (EtcGenerate ''glusterd'') w6;
                    w8 = (if mounted then
                            emit (SmbConfigure False)
                              (emit SmbSetupDirectories
                                 (emit (ServiceRestartAsync ''syslogd'')
                                    (emit (ServiceRestartAsync ''rrdcached'') w7)))
                          else w7);
                    fw = config env w8
                in (Inr (Some (fst fw)), snd fw)))))))"

text \<open>
  \<open>setup(exclude_pool)\<close>, here \<open>sysdataset_setup\<close>.  The two early branches call \<open>systemdataset.update\<close> through
  the middleware and wait for the job; \<open>update_job\<close> stands for that call and returns
  the job's error.  The first statement clears \<open>force_pool\<close>.
\<close>

definition sysdataset_setup :: "env \<Rightarrow> (update_data \<Rightarrow> world \<Rightarrow> string option \<times> world) \<Rightarrow> string option \<Rightarrow> world \<Rightarrow> config option result" where
  "sysdataset_setup env update_job exclude_pool w =
     (let w0 = w\<lparr>force_pool := None\<rparr>;
          cw = config env w0; conf = fst cw; w1 = snd cw;
          boot_pool = boot_pool_name env
      in if cfg_pool conf \<noteq> boot_pool \<and> cfg_pool conf \<notin> set (pool_query env) then
           (let w2 = emit (LogDebug ''Pool %r does not exist, moving system dataset to another pool''
                         [cfg_pool conf]) w1;
                job = update_job \<lparr>u_pool = Some None, u_pool_exclude = exclude_pool, u_syslog = None\<rparr> w2
            in case fst job of
                 Some error \<Rightarrow> (Inl (CallError error), snd job)
               | None \<Rightarrow> (Inr None, snd job))
         else
           (case (if \<not> cfg_pool_set conf then query_pool_for_system_dataset env exclude_pool w1
                  else None) of
              Some pool \<Rightarrow>
                (let w2 = emit (LogDebug ''Sysdataset pool was not set, moving it to first available pool %r''
                              [pool]) w1;
                     job = update_job \<lparr>u_pool = Some (Some pool), u_pool_exclude = None, u_syslog = None\<rparr> w2
                 in case fst job of
                      Some error \<Rightarrow> (Inl (CallError error), snd job)
                    | None \<Rightarrow> (Inr None, snd job))
            | None \<Rightarrow> setup_apply env conf w1))"

subsection \<open>Changing the configuration: \<open>do_update\<close>\<close>

definition ad_enabled :: "env \<Rightarrow> bool" where
  "ad_enabled env = (ad_state env \<in> set [''HEALTHY'', ''FAULTED''])"

text \<open>
  The validation of \<open>do_update\<close>, up to \<open>verrors.check()\<close>: the value of \<open>new['pool']\<close> that
  will be stored, or the \<open>ValidationErrors\<close> collected.
\<close>

definition validate_update :: "env \<Rightarrow> update_data \<Rightarrow> config \<Rightarrow> world \<Rightarrow> string result" where
  "validate_update env data conf w =
     (let new_pool = (case u_pool data of None \<Rightarrow> Some (cfg_pool conf) | Some p \<Rightarrow> p);
          name = or_else new_pool []
      in bind
           (if new_pool \<noteq> Some (cfg_pool conf) then
              (let v = (if system_ready env \<and> ad_enabled env then
                          [(''sysdataset_update.pool'',
                            ''System dataset location may not be moved while the Active Directory service is enabled.'',
                            EPERM)]
                        else [])
               in if truthy_opt new_pool then
                    bind (destination_pool_error env name w) (\<lambda>error w1.
                      (Inr (v @ (if truthy_opt error
                                 then [(''sysdataset_update.pool'', or_else error [], EINVAL)] else [])),
                       w1))
                  else (Inr v, w))
            else (Inr [], w))
           (\<lambda>verrors w1.
              bind
                (if truthy name \<and> name \<noteq> boot_pool_name env then
                   (if name \<notin> set (pool_query env) then
                      (Inr (verrors @ [(''sysdataset_update.pool'',
                                        ''Pool '' @ [CHR 0x22] @ name @ [CHR 0x22] @ '' not found'',
                                        ENOENT)], name), w1)
                    else if pool_dataset_query
                              (\<lambda>d. ds_name d = name \<and> ds_encrypted d \<and> passphrase_or_locked d) w1 \<noteq> []
                    then
                      (Inr (verrors @ [(''sysdataset_update.pool'',
                                        ''The system dataset cannot be placed on a pool which has the root dataset encrypted with a passphrase or is locked.'',
                                        EINVAL)], name), w1)
                    else (Inr (verrors, name), w1))
                 else if \<not> truthy name then
                   bind (auto_select_pool env (u_pool_exclude data) (pool_query env) w1)
                     (\<lambda>pool w2. (Inr (verrors, pool), w2))
                 else (Inr (verrors, name), w1))
                (\<lambda>vp w2.
                   if fst vp \<noteq> [] then (Inl (ValidationErrors (fst vp)), w2)
                   else (Inr (snd vp), w2))))"

text \<open>
  The \<open>datastore.update\<close> of \<open>do_update\<close>: the stored row takes \<open>pool\<close>, \<open>uuid\<close>, \<open>uuid_b\<close>
  and \<open>syslog\<close> of \<open>new\<close>, which is \<open>config\<close> overwritten with \<open>data\<close> and the validated pool.
\<close>

definition store_update :: "update_data \<Rightarrow> config \<Rightarrow> string \<Rightarrow> world \<Rightarrow> world" where
  "store_update data conf new_pool w =
     (let new_syslog = (case u_syslog data of None \<Rightarrow> cfg_syslog conf | Some b \<Rightarrow> b)
      in datastore_update
           (\<lambda>_. \<lparr>sys_pool = new_pool, sys_syslog_usedataset = new_syslog,
                  sys_uuid = cfg_uuid conf, sys_uuid_b = cfg_uuid_b conf\<rparr>) w)"

text \<open>\<open>do_update(job, data)\<close>.  \<open>update_job\<close> is handed on to \<open>setup\<close>.\<close>

definition do_update :: "env \<Rightarrow> (update_data \<Rightarrow> world \<Rightarrow> string option \<times> world) \<Rightarrow> update_data \<Rightarrow> world \<Rightarrow> config result" where
  "do_update env update_job data w =
     (let cw = config env w; conf = fst cw
      in bind (validate_update env data conf (snd cw)) (\<lambda>new_pool w1.
           let w2 = store_update data conf new_pool w1;
               nw = config env w2; new = fst nw
           in bind (if cfg_pool conf \<noteq> cfg_pool new
                    then migrate env (cfg_pool conf) (cfg_pool new) (snd nw)
                    else (Inr (), snd nw))
                (\<lambda>_ w3.
                   bind (sysdataset_setup env update_job (u_pool_exclude data) w3) (\<lambda>_ w4.
                     let w5 = (if cfg_syslog conf \<noteq> cfg_syslog new
                               then service_restart ''syslogd'' w4 else w4);
                         w6 = (if failover_licensed env \<and> failover_status env = ''MASTER'' then
                                 (let w' = emit (CallRemote ''system.reboot'') w5
                                  in case call_remote_error env of
                                       None \<Rightarrow> w'
                                     | Some e \<Rightarrow>
                                         emit (LogDebug
                                           ''Failed to reboot standby storage controller after system dataset change: %s''
                                           [e]) w')
                               else w5);
                         fw = config env w6
                     in (Inr (fst fw), snd fw)))))"

subsection \<open>Reading the trace, and an example system\<close>

text \<open>The command lines among a list of events, in order.\<close>

fun run_cmds :: "event list \<Rightarrow> string list list" where
  "run_cmds [] = []"
| "run_cmds (Run cmd # es) = cmd # run_cmds es"
| "run_cmds (e # es) = run_cmds es"

text \<open>
  A single-node system with the pools \<open>tank\<close> and \<open>backup\<close>: the system dataset lives on
  \<open>tank\<close> and its root is mounted at the stable path; every command and call succeeds.
\<close>

definition example_env :: env where
  "example_env =
     \<lparr>ctdb_vol_name = ''ctdb_shared_vol'', boot_pool_name = ''boot-pool'',
      is_enterprise = False, failover_node = ''MANUAL'', failover_licensed = False,
      failover_status = ''SINGLE'', uuid4_hex = ''0f0e0d0c0b0a09080706050403020100'',
      system_ready = True, ad_state = ''DISABLED'', run_migration = False,
      pool_query = [''tank'', ''backup''], service_enabled = (\<lambda>_. False),
      format_size = (\<lambda>n. ''(size)''), cmd_result = (\<lambda>_. (0, [])),
      zfs_create_error = (\<lambda>_. None), zfs_delete_error = (\<lambda>_. None),
      zfs_update_error = (\<lambda>_. None), os_error = (\<lambda>_ _. None),
      gluster_init_error = None, processes_using_paths = (\<lambda>_. ''[]''),
      call_remote_error = None\<rparr>"

definition example_dataset :: "string \<Rightarrow> nat \<Rightarrow> nat \<Rightarrow> dataset" where
  "example_dataset name used available =
     \<lparr>ds_name = name,
      ds_props = [(''mountpoint'', ''legacy''), (''readonly'', ''off''), (''snapdir'', ''hidden''),
                  (''quota'', ''none''), (''acltype'', ''off'')],
      ds_used = used, ds_available = available,
      ds_encrypted = False, ds_key_format = ''NONE'', ds_locked = False\<rparr>"

definition example_world :: world where
  "example_world =
     \<lparr>db = \<lparr>sys_pool = ''tank'', sys_syslog_usedataset = False, sys_uuid = ''a1'', sys_uuid_b = None\<rparr>,
      force_pool = None,
      datasets = [example_dataset ''tank'' (2 * 1024 ^ 3) (100 * 1024 ^ 3),
                  example_dataset ''backup'' 1024 (2 * 1024 ^ 3),
                  example_dataset ''tank/.system'' (1024 ^ 3) (100 * 1024 ^ 3)],
      mounts = [(''tank/.system'', ''/var/db/system'')],
      fs = [(''/var/db/system'', Dir)],
      started = (\<lambda>s. s = ''cifs''),
      use_syslog_dataset = None,
      trace = []\<rparr>"

text \<open>The same system where unmounting \<open>tank/.system/cores\<close> fails: the target is busy.\<close>

definition busy_env :: env where
  "busy_env = example_env\<lparr>cmd_result :=
     (\<lambda>cmd. if cmd = [''umount'', ''-f'', ''tank/.system/cores'']
            then (32, ''umount: /var/db/system/cores: target is busy.'')
            else (0, []))\<rparr>"

text \<open>A guarded block that raises.\<close>

definition failing_block :: "world \<Rightarrow> unit result" where
  "failing_block w = (Inl (CallError ''block failed''), w)"

text \<open>
  Variants of the example: no system dataset yet; \<open>backup\<close> with half a GiB free; the
  root dataset of \<open>tank\<close> locked; a forced pool left by an earlier \<open>setup\<close>.
\<close>

definition fresh_world :: world where
  "fresh_world = example_world\<lparr>datasets :=
     [example_dataset ''tank'' (2 * 1024 ^ 3) (100 * 1024 ^ 3),
      example_dataset ''backup'' 1024 (2 * 1024 ^ 3)]\<rparr>"

definition small_backup_world :: world where
  "small_backup_world = example_world\<lparr>datasets :=
     [example_dataset ''tank'' (2 * 1024 ^ 3) (100 * 1024 ^ 3),
      example_dataset ''backup'' 1024 (512 * 1024 ^ 2),
      example_dataset ''tank/.system'' (1024 ^ 3) (100 * 1024 ^ 3)]\<rparr>"

definition locked_world :: world where
  "locked_world = example_world\<lparr>datasets :=
     [(example_dataset ''tank'' (2 * 1024 ^ 3) (100 * 1024 ^ 3))
        \<lparr>ds_encrypted := True, ds_key_format := ''PASSPHRASE'', ds_locked := True\<rparr>,
      example_dataset ''backup'' 1024 (2 * 1024 ^ 3),
      example_dataset ''tank/.system'' (1024 ^ 3) (100 * 1024 ^ 3)]\<rparr>"

definition forced_world :: world where
  "forced_world = example_world\<lparr>force_pool := Some ''boot-pool''\<rparr>"

definition unset_world :: world where
  "unset_world = example_world\<lparr>db := (db example_world)\<lparr>sys_pool := []\<rparr>\<rparr>"

definition no_update_job :: "update_data \<Rightarrow> world \<Rightarrow> string option \<times> world" where
  "no_update_job data w = (None, w)"

text \<open>
  A candidate pool the automatic selection passes over: the excluded pool, a pool whose
  root dataset is passphrase-encrypted or locked, or one the feasibility check refuses.
\<close>

definition infeasible :: "env \<Rightarrow> world \<Rightarrow> string \<Rightarrow> bool" where
  "infeasible env w name =
     (case fst (destination_pool_error env name w) of
        Inr error \<Rightarrow> truthy_opt error
      | Inl e \<Rightarrow> False)"

definition ineligible :: "env \<Rightarrow> string option \<Rightarrow> world \<Rightarrow> string \<Rightarrow> bool" where
  "ineligible env pool_exclude w name =
     (pool_exclude = Some name
      \<or> pool_dataset_query (\<lambda>d. ds_name d = name \<and> passphrase_or_locked d) w \<noteq> []
      \<or> infeasible env w name)"

text \<open>
  The example with Active Directory joined, and the update of \<open>pool_pre_export\<close> when
  \<open>tank\<close> is exported: no pool given, \<open>tank\<close> excluded.  A system whose only pool is \<open>tank\<close>.
\<close>

definition ad_env :: env where
  "ad_env = example_env\<lparr>ad_state := ''HEALTHY'', pool_query := [''tank'']\<rparr>"

definition single_pool_env :: env where
  "single_pool_env = example_env\<lparr>pool_query := [''tank'']\<rparr>"

definition export_tank :: update_data where
  "export_tank = \<lparr>u_pool = Some None, u_pool_exclude = Some ''tank'', u_syslog = None\<rparr>"

text \<open>
  The example where \<open>tank/.system/cores\<close> holds 3 GiB, and one where it is missing and
  \<open>zfs.dataset.create\<close> works; a system where \<open>zfs.dataset.delete\<close> fails.
\<close>

definition full_cores_world :: world where
  "full_cores_world = example_world\<lparr>datasets :=
     datasets example_world @
     [(example_dataset ''tank/.system/cores'' (3 * 1024 ^ 3) (100 * 1024 ^ 3))
        \<lparr>ds_props := [(''mountpoint'', ''legacy''), (''readonly'', ''off''), (''snapdir'', ''hidden''),
                      (''quota'', ''1G''), (''acltype'', ''off'')]\<rparr>,
      example_dataset ''tank/.system/cores/old'' 1024 (100 * 1024 ^ 3)]\<rparr>"

definition no_delete_env :: env where
  "no_delete_env = example_env\<lparr>zfs_delete_error := (\<lambda>_. Some ''dataset is busy'')\<rparr>"

text \<open>
  \<open>keeps_pool p w w'\<close>: every mount of a dataset of pool \<open>p\<close> outside the scratch tree, and
  every dataset of pool \<open>p\<close>, that \<open>w\<close> has is still in \<open>w'\<close>, unchanged.
\<close>

definition keeps_pool :: "string \<Rightarrow> world \<Rightarrow> world \<Rightarrow> bool" where
  "keeps_pool p w w' =
     (list_all (\<lambda>m. pool_of (fst m) = p \<and> \<not> path_under SCRATCH_PATH (snd m) \<longrightarrow> m \<in> set (mounts w'))
        (mounts w)
      \<and> list_all (\<lambda>d. pool_of (ds_name d) = p \<longrightarrow> d \<in> set (datasets w')) (datasets w))"

text \<open>
  A system where \<open>rsync\<close> fails, and the state an earlier failed migration from \<open>tank\<close> to
  \<open>backup\<close> left: the scratch directory exists, \<open>backup/.system\<close> and its cores dataset
  exist and are mounted below the scratch path, and the cores dataset has filled its
  quota.
\<close>

definition rsync_fail_env :: env where
  "rsync_fail_env = example_env\<lparr>cmd_result :=
     (\<lambda>cmd. if hd cmd = ''rsync'' then (23, ''rsync error'') else (0, []))\<rparr>"

definition retry_world :: world where
  "retry_world = example_world\<lparr>
     datasets := datasets example_world @
       [(example_dataset ''backup/.system'' 1024 (2 * 1024 ^ 3)),
        (example_dataset ''backup/.system/cores'' (1024 ^ 3) 0)
          \<lparr>ds_props := [(''mountpoint'', ''legacy''), (''readonly'', ''off''),
                        (''snapdir'', ''hidden''), (''quota'', ''1G''), (''acltype'', ''off'')]\<rparr>,
        example_dataset ''backup/.system/cores/old'' 1024 0],
     mounts := mounts example_world @
       [(''backup/.system'', ''/tmp/system.new''),
        (''backup/.system/cores'', ''/tmp/system.new/cores'')],
     fs := [(''/var/db/system'', Dir), (''/tmp/system.new'', Dir)]\<rparr>"

section \<open>Properties\<close>

subsection \<open>Topology\<close>

lemma get_datasets_labels:
  "map snd (get_datasets vol pool uuid) = [] # child_labels vol uuid"
  by (simp add: get_datasets_def comp_def)

lemma get_datasets_length: "length (get_datasets vol pool uuid) = 10"
  by (simp add: get_datasets_def child_labels_def)

subsection \<open>The trace of mounting and unmounting\<close>

lemma trace_emit [simp]: "trace (emit e w) = trace w @ [e]"
  by (simp add: emit_def)

lemma emit_fields [simp]:
  "db (emit e w) = db w" "force_pool (emit e w) = force_pool w"
  "datasets (emit e w) = datasets w" "mounts (emit e w) = mounts w" "fs (emit e w) = fs w"
  "started (emit e w) = started w" "use_syslog_dataset (emit e w) = use_syslog_dataset w"
  by (simp_all add: emit_def)

lemma trace_unmount_device [simp]: "trace (unmount_device d w) = trace w"
  by (simp add: unmount_device_def)

lemma trace_unmount_path [simp]: "trace (unmount_path d w) = trace w"
  by (simp add: unmount_path_def)

lemma trace_add_mount [simp]: "trace (add_mount d m w) = trace w"
  by (simp add: add_mount_def)

lemma run_cmds_append [simp]: "run_cmds (xs @ ys) = run_cmds xs @ run_cmds ys"
  by (induction xs rule: run_cmds.induct) simp_all

lemma run_cmds_map_Run [simp]: "run_cmds (map (\<lambda>d. Run (f d)) xs) = map f xs"
  by (induction xs) simp_all

lemma umount_one_trace:
  "trace (snd (umount_one env flags ds w)) = trace w @ [Run [''umount'', flags, fst ds]]"
  by (simp add: umount_one_def run_def Let_def run_in_thread_def split: prod.splits sum.splits exn.splits option.splits)

lemma for_each_umount_trace:
  "\<exists>k\<le>length xs. trace (snd (for_each (umount_one env flags) xs w))
       = trace w @ map (\<lambda>d. Run [''umount'', flags, fst d]) (take k xs)
     \<and> (fst (for_each (umount_one env flags) xs w) = Inr () \<longrightarrow> k = length xs)"
proof (induction xs arbitrary: w)
  case Nil
  then show ?case by simp
next
  case (Cons x xs)
  obtain r w1 where s: "umount_one env flags x w = (r, w1)" by (cases "umount_one env flags x w")
  have t: "trace w1 = trace w @ [Run [''umount'', flags, fst x]]"
    using umount_one_trace[of env flags x w] s by simp
  show ?case
  proof (cases r)
    case (Inl e)
    then show ?thesis using s t by (intro exI[of _ 1]) (simp add: bind_def)
  next
    case (Inr u)
    from Cons.IH[of w1] obtain k where k: "k \<le> length xs"
      "trace (snd (for_each (umount_one env flags) xs w1)) = trace w1 @ map (\<lambda>d. Run [''umount'', flags, fst d]) (take k xs)"
      "fst (for_each (umount_one env flags) xs w1) = Inr () \<longrightarrow> k = length xs" by blast
    then show ?thesis using s t Inr by (intro exI[of _ "Suc k"]) (simp add: bind_def)
  qed
qed

lemma umount_trace:
  "\<exists>k\<le>length (get_datasets (ctdb_vol_name env) pool uuid).
     trace (snd (umount env pool uuid w))
       = trace w @ Run [''umount'', COREDUMP_PATH]
           # map (\<lambda>d. Run [''umount'', umount_flags env, fst d])
               (take k (rev (get_datasets (ctdb_vol_name env) pool uuid)))
     \<and> (fst (umount env pool uuid w) = Inr () \<longrightarrow> k = length (get_datasets (ctdb_vol_name env) pool uuid))"
proof -
  let ?w1 = "snd (run env False [''umount'', ''/var/lib/systemd/coredump'']
                      (unmount_path ''/var/lib/systemd/coredump'') w)"
  have t1: "trace ?w1 = trace w @ [Run [''umount'', COREDUMP_PATH]]"
    by (simp add: run_def Let_def COREDUMP_PATH_def)
  from for_each_umount_trace[of "rev (get_datasets (ctdb_vol_name env) pool uuid)" env "umount_flags env" ?w1]
  show ?thesis unfolding umount_def Let_def t1 by simp
qed

lemma is_mounted_run_cmds:
  "\<exists>evs. trace (snd (is_mounted env mp w)) = trace w @ evs \<and> run_cmds evs = []"
  by (auto simp: is_mounted_def mkdir_def bind_def fs_set_def split: option.splits)

lemma mount_loop_order:
  "\<exists>evs sub. trace (snd (mount_loop env path xs m w)) = trace w @ evs
      \<and> subseq sub xs
      \<and> run_cmds evs = map (\<lambda>d. [''mount'', ''-t'', ''zfs'', fst d, mountpoint_of path (snd d)]) sub"
proof (induction xs arbitrary: m w)
  case Nil
  then show ?case by simp
next
  case (Cons x rest)
  obtain dataset name where x: "x = (dataset, name)" by (cases x)
  let ?mp = "mountpoint_of path name"
  let ?f = "\<lambda>d. [''mount'', ''-t'', ''zfs'', fst d, mountpoint_of path (snd d)]"
  obtain r w1 where s: "is_mounted env ?mp w = (r, w1)" by (cases "is_mounted env ?mp w")
  from is_mounted_run_cmds[of env ?mp w] s obtain e1 where
    e1: "trace w1 = trace w @ e1" "run_cmds e1 = []" by auto
  show ?case
  proof (cases r)
    case (Inl e)
    then show ?thesis using s e1 x
      by (intro exI[of _ e1] exI[of _ "[]"]) (simp add: bind_def)
  next
    case (Inr already)
    show ?thesis
    proof (cases already)
      case True
      from Cons.IH[of m w1] obtain evs sub where
        h: "trace (snd (mount_loop env path rest m w1)) = trace w1 @ evs"
           "subseq sub rest" "run_cmds evs = map ?f sub"
        by auto
      then show ?thesis using s e1 Inr True x
        by (intro exI[of _ "e1 @ evs"] exI[of _ sub]) (simp add: bind_def list_emb_Cons)
    next
      case False
      let ?cmd = "[''mount'', ''-t'', ''zfs'', dataset, ?mp]"
      obtain r2 w2 where s2: "run env True ?cmd (add_mount dataset ?mp) w1 = (r2, w2)"
        by (cases "run env True ?cmd (add_mount dataset ?mp) w1")
      have t2: "trace w2 = trace w1 @ [Run ?cmd]"
        using s2 by (auto simp: run_def Let_def split: if_splits)
      show ?thesis
      proof (cases r2)
        case (Inl e)
        then show ?thesis using s e1 Inr False s2 t2 x
          by (intro exI[of _ "e1 @ [Run ?cmd]"] exI[of _ "[(dataset, name)]"]) (simp add: bind_def)
      next
        case r2: (Inr cp)
        from Cons.IH[of True w2] obtain evs sub where
          h: "trace (snd (mount_loop env path rest True w2)) = trace w2 @ evs"
             "subseq sub rest" "run_cmds evs = map ?f sub"
          by auto
        then show ?thesis using s e1 Inr False s2 t2 r2 x
          by (intro exI[of _ "e1 @ Run ?cmd # evs"] exI[of _ "(dataset, name) # sub"]) (simp add: bind_def)
      qed
    qed
  qed
qed

subsection \<open>Topology and unmount order\<close>

lemma get_datasets_names:
  "map (\<lambda>d. drop (length pool) (fst d)) (get_datasets vol pool uuid)
     = ''/.system'' # map (\<lambda>i. ''/.system/'' @ i) (child_labels vol uuid)"
  by (simp add: get_datasets_def comp_def)

lemma get_datasets_prefix:
  "list_all (\<lambda>d. take (length pool) (fst d) = pool) (get_datasets vol pool uuid)"
  by (simp add: get_datasets_def list_all_iff)

lemma mount_order:
  "\<exists>evs sub. trace (snd (mount env pool uuid path w)) = trace w @ evs
      \<and> subseq sub (get_datasets (ctdb_vol_name env) pool uuid)
      \<and> run_cmds evs = map (\<lambda>d. [''mount'', ''-t'', ''zfs'', fst d, mountpoint_of path (snd d)]) sub"
proof -
  let ?ds = "get_datasets (ctdb_vol_name env) pool uuid"
  from mount_loop_order[of env path ?ds False w] obtain evs sub where
    h: "trace (snd (mount_loop env path ?ds False w)) = trace w @ evs" "subseq sub ?ds"
       "run_cmds evs = map (\<lambda>d. [''mount'', ''-t'', ''zfs'', fst d, mountpoint_of path (snd d)]) sub"
    by blast
  obtain r w1 where s: "mount_loop env path ?ds False w = (r, w1)"
    by (cases "mount_loop env path ?ds False w")
  show ?thesis
  proof (cases r)
    case (Inl e)
    then show ?thesis using h s by (intro exI[of _ evs] exI[of _ sub]) (simp add: mount_def bind_def)
  next
    case (Inr m)
    have "\<exists>e2. trace (gluster_eventsd_init env w1) = trace w1 @ e2 \<and> run_cmds e2 = []"
      by (auto simp: gluster_eventsd_init_def Let_def split: option.splits)
    then obtain e2 where e2: "trace (gluster_eventsd_init env w1) = trace w1 @ e2" "run_cmds e2 = []"
      by blast
    then show ?thesis using h s Inr
      by (intro exI[of _ "evs @ e2"] exI[of _ sub]) (simp add: mount_def bind_def)
  qed
qed

text \<open>
  C5.  The topology starts with the root dataset and the empty label; the labels, and
  the dataset names without their pool prefix, are the same for any two pools, and
  every name starts with its pool.  \<open>__umount\<close> runs, after the coredump unmount, one
  \<open>umount\<close> per dataset along the reversed topology, all of them when it returns
  normally and an initial stretch when it raises; \<open>__mount\<close> runs its \<open>mount\<close> commands
  along the topology itself.
\<close>

theorem get_datasets_topology_umount_reverse:
  "hd (get_datasets vol pool uuid) = (pool @ ''/.system'', [])
   \<and> map snd (get_datasets vol pool uuid) = map snd (get_datasets vol pool' uuid)
   \<and> map (\<lambda>d. drop (length pool) (fst d)) (get_datasets vol pool uuid)
       = map (\<lambda>d. drop (length pool') (fst d)) (get_datasets vol pool' uuid)
   \<and> list_all (\<lambda>d. take (length pool) (fst d) = pool) (get_datasets vol pool uuid)
   \<and> (\<exists>k\<le>length (get_datasets (ctdb_vol_name env) pool uuid).
         trace (snd (umount env pool uuid w))
           = trace w @ Run [''umount'', COREDUMP_PATH]
               # map (\<lambda>d. Run [''umount'', umount_flags env, fst d])
                   (take k (rev (get_datasets (ctdb_vol_name env) pool uuid)))
         \<and> (fst (umount env pool uuid w) = Inr ()
              \<longrightarrow> k = length (get_datasets (ctdb_vol_name env) pool uuid)))
   \<and> (\<exists>evs sub. trace (snd (mount env pool uuid path w)) = trace w @ evs
         \<and> subseq sub (get_datasets (ctdb_vol_name env) pool uuid)
         \<and> run_cmds evs
             = map (\<lambda>d. [''mount'', ''-t'', ''zfs'', fst d, mountpoint_of path (snd d)]) sub)"
proof -
  have 1: "hd (get_datasets vol pool uuid) = (pool @ ''/.system'', [])"
    by (simp add: get_datasets_def)
  have 2: "map snd (get_datasets vol pool uuid) = map snd (get_datasets vol pool' uuid)"
    by (simp only: get_datasets_labels)
  have 3: "map (\<lambda>d. drop (length pool) (fst d)) (get_datasets vol pool uuid)
       = map (\<lambda>d. drop (length pool') (fst d)) (get_datasets vol pool' uuid)"
    by (simp only: get_datasets_names)
  show ?thesis
    using 1 2 3 get_datasets_prefix[of pool vol uuid] umount_trace[of env pool uuid w]
      mount_order[of env pool uuid path w]
    by blast
qed

theorem get_datasets_topology_umount_reverse_witness:
  "fst (umount example_env ''tank'' ''a1'' example_world) = Inr ()
   \<and> map snd (get_datasets ''ctdb_shared_vol'' ''tank'' ''a1'')
       = map snd (get_datasets ''ctdb_shared_vol'' ''backup'' ''a1'')
   \<and> run_cmds (trace (snd (umount example_env ''tank'' ''a1'' example_world)))
       = [''umount'', ''/var/lib/systemd/coredump'']
         # map (\<lambda>d. [''umount'', ''-f'', fst d]) (rev (get_datasets ''ctdb_shared_vol'' ''tank'' ''a1''))"
proof -
  have ok: "fst (umount example_env ''tank'' ''a1'' example_world) = Inr ()"
    by (simp add: umount_def umount_one_def run_def get_datasets_def child_labels_def
        example_env_def example_world_def emit_def unmount_device_def unmount_path_def
        umount_flags_def bind_def Let_def)
  have e: "ctdb_vol_name example_env = ''ctdb_shared_vol''" "umount_flags example_env = ''-f''"
    "trace example_world = []"
    by (simp_all add: example_env_def umount_flags_def example_world_def)
  from get_datasets_topology_umount_reverse[of "''ctdb_shared_vol''" "''tank''" "''a1''" "''backup''"
      example_env example_world SYSDATASET_PATH] ok
  show ?thesis
    by (simp add: e COREDUMP_PATH_def comp_def)
qed

subsection \<open>Mounting twice\<close>

lemma is_mounted_mounts: "mounts (snd (is_mounted env mp w)) = mounts w"
  by (simp add: is_mounted_def mkdir_def bind_def emit_def fs_set_def split: option.splits)

lemma is_mounted_already: "is_mounted env mp w = (Inr True, w') \<Longrightarrow> is_mount w mp"
  by (auto simp: is_mounted_def mkdir_def bind_def split: if_splits option.splits)

lemma is_mounted_skip: "is_mount w mp \<Longrightarrow> is_mounted env mp w = (Inr True, w)"
  by (simp add: is_mounted_def)

lemma is_mount_mono: "set (mounts w) \<subseteq> set (mounts w') \<Longrightarrow> is_mount w mp \<Longrightarrow> is_mount w' mp"
  by (auto simp: is_mount_def)

lemma run_mount_ok:
  "run env True cmd (add_mount dataset mp) w = (Inr cp, w')
   \<Longrightarrow> set (mounts w) \<subseteq> set (mounts w') \<and> is_mount w' mp"
  by (auto simp: run_def Let_def add_mount_def emit_def is_mount_def split: if_splits)

lemma mount_loop_post:
  "mount_loop env path xs m w = (Inr b, w')
   \<Longrightarrow> set (mounts w) \<subseteq> set (mounts w') \<and> list_all (\<lambda>d. is_mount w' (mountpoint_of path (snd d))) xs"
proof (induction xs arbitrary: m w)
  case Nil
  then show ?case by simp
next
  case (Cons x rest)
  obtain dataset name where x: "x = (dataset, name)" by (cases x)
  let ?mp = "mountpoint_of path name"
  obtain r w1 where s: "is_mounted env ?mp w = (r, w1)" by (cases "is_mounted env ?mp w")
  have m1: "mounts w1 = mounts w" using is_mounted_mounts[of env ?mp w] s by simp
  from Cons.prems s x obtain already where r: "r = Inr already"
    by (cases r) (simp_all add: bind_def)
  show ?case
  proof (cases already)
    case True
    with Cons.prems s x r have l: "mount_loop env path rest m w1 = (Inr b, w')"
      by (simp add: bind_def)
    from Cons.IH[OF l] have ih: "set (mounts w1) \<subseteq> set (mounts w')"
      "list_all (\<lambda>d. is_mount w' (mountpoint_of path (snd d))) rest" by simp_all
    from s r True have "is_mount w ?mp" by (simp add: is_mounted_already)
    with ih m1 have "is_mount w' ?mp" by (auto intro: is_mount_mono)
    with ih m1 x show ?thesis by simp
  next
    case False
    let ?cmd = "[''mount'', ''-t'', ''zfs'', dataset, ?mp]"
    obtain r2 w2 where s2: "run env True ?cmd (add_mount dataset ?mp) w1 = (r2, w2)"
      by (cases "run env True ?cmd (add_mount dataset ?mp) w1")
    from Cons.prems s x r False s2 obtain cp where r2: "r2 = Inr cp"
      by (cases r2) (simp_all add: bind_def)
    with Cons.prems s x r False s2 have l: "mount_loop env path rest True w2 = (Inr b, w')"
      by (simp add: bind_def)
    from Cons.IH[OF l] have ih: "set (mounts w2) \<subseteq> set (mounts w')"
      "list_all (\<lambda>d. is_mount w' (mountpoint_of path (snd d))) rest" by simp_all
    from run_mount_ok[of env ?cmd dataset ?mp w1 cp w2] s2 r2
    have k: "set (mounts w1) \<subseteq> set (mounts w2)" "is_mount w2 ?mp" by simp_all
    with ih have "is_mount w' ?mp" by (auto intro: is_mount_mono)
    with ih k m1 x show ?thesis by auto
  qed
qed

lemma mount_loop_skip_all:
  "list_all (\<lambda>d. is_mount w (mountpoint_of path (snd d))) xs \<Longrightarrow> mount_loop env path xs m w = (Inr m, w)"
proof (induction xs)
  case Nil
  then show ?case by simp
next
  case (Cons x rest)
  obtain dataset name where x: "x = (dataset, name)" by (cases x)
  with Cons show ?case by (simp add: is_mounted_skip bind_def)
qed

lemma gluster_eventsd_init_mounts [simp]: "mounts (gluster_eventsd_init env w) = mounts w"
  by (simp add: gluster_eventsd_init_def emit_def Let_def split: option.splits)

lemma mount_post:
  assumes "mount env pool uuid path w = (Inr b, w1)"
  shows "set (mounts w) \<subseteq> set (mounts w1)"
    and "list_all (\<lambda>d. is_mount w1 (mountpoint_of path (snd d))) (get_datasets (ctdb_vol_name env) pool uuid)"
proof -
  let ?ds = "get_datasets (ctdb_vol_name env) pool uuid"
  obtain r w' where s: "mount_loop env path ?ds False w = (r, w')"
    by (cases "mount_loop env path ?ds False w")
  with assms have r: "r = Inr b" and w1: "w1 = gluster_eventsd_init env w'"
    by (cases r; simp add: mount_def bind_def)+
  from mount_loop_post[of env path ?ds False w b w'] s r
  have p: "set (mounts w) \<subseteq> set (mounts w')" "list_all (\<lambda>d. is_mount w' (mountpoint_of path (snd d))) ?ds"
    by simp_all
  show "set (mounts w) \<subseteq> set (mounts w1)" using p w1 by simp
  show "list_all (\<lambda>d. is_mount w1 (mountpoint_of path (snd d))) ?ds"
    using p w1 by (simp add: is_mount_def)
qed

text \<open>
  C6.  After a call of \<open>__mount\<close> that returned, a second call for the same pool, uuid
  and path, in any world whose mount table still holds what the first call left (no
  unmount in between), finds every mountpoint mounted: it returns \<open>False\<close>, changes
  nothing but the trace of \<open>gluster.eventsd.init\<close>, leaves the mount table as it is and
  runs no command.
\<close>

theorem mount_idempotent:
  assumes "mount env pool uuid path w = (Inr b, w1)"
    and "set (mounts w1) \<subseteq> set (mounts w2)"
  shows "mount env pool uuid path w2 = (Inr False, gluster_eventsd_init env w2)
    \<and> mounts (gluster_eventsd_init env w2) = mounts w2
    \<and> run_cmds (drop (length (trace w2)) (trace (gluster_eventsd_init env w2))) = []"
proof -
  let ?ds = "get_datasets (ctdb_vol_name env) pool uuid"
  from mount_post(2)[OF assms(1)]
  have "list_all (\<lambda>d. is_mount w1 (mountpoint_of path (snd d))) ?ds" .
  with assms(2) have "list_all (\<lambda>d. is_mount w2 (mountpoint_of path (snd d))) ?ds"
    by (auto simp: list_all_iff intro: is_mount_mono)
  then have "mount_loop env path ?ds False w2 = (Inr False, w2)"
    by (rule mount_loop_skip_all)
  then have "mount env pool uuid path w2 = (Inr False, gluster_eventsd_init env w2)"
    by (simp add: mount_def bind_def)
  moreover have "run_cmds (drop (length (trace w2)) (trace (gluster_eventsd_init env w2))) = []"
    by (simp add: gluster_eventsd_init_def Let_def split: option.splits)
  ultimately show ?thesis by simp
qed

lemma example_mount_first:
  "fst (mount example_env ''tank'' ''a1'' SYSDATASET_PATH example_world) = Inr True"
  by (simp add: mount_def mount_loop.simps is_mounted_def is_mount_def is_dir_def mkdir_def
      mountpoint_of_def truthy_def fs_set_def add_mount_def
      run_def get_datasets_def child_labels_def gluster_eventsd_init_def SYSDATASET_PATH_def
      example_env_def example_world_def emit_def bind_def Let_def)

theorem mount_idempotent_witness:
  "fst (mount example_env ''tank'' ''a1'' SYSDATASET_PATH example_world) = Inr True
   \<and> fst (mount example_env ''tank'' ''a1'' SYSDATASET_PATH
            (snd (mount example_env ''tank'' ''a1'' SYSDATASET_PATH example_world))) = Inr False
   \<and> mounts (snd (mount example_env ''tank'' ''a1'' SYSDATASET_PATH
            (snd (mount example_env ''tank'' ''a1'' SYSDATASET_PATH example_world))))
       = mounts (snd (mount example_env ''tank'' ''a1'' SYSDATASET_PATH example_world))"
proof -
  let ?first = "mount example_env ''tank'' ''a1'' SYSDATASET_PATH example_world"
  have f: "?first = (Inr True, snd ?first)"
    using example_mount_first by (simp add: prod_eq_iff)
  from mount_idempotent[OF f subset_refl] example_mount_first show ?thesis by simp
qed

subsection \<open>Unmount failures\<close>

lemma umount_one_ok:
  "fst (cmd_result env [''umount'', flags, fst ds]) = 0 \<Longrightarrow> fst (umount_one env flags ds w) = Inr ()"
  by (simp add: umount_one_def run_def Let_def)

lemma umount_one_already_unmounted:
  assumes "cmd_result env [''umount'', flags, fst ds] = (rc, stderr)" and "rc \<noteq> 0"
    and "contains ''no mount point specified'' stderr"
  shows "umount_one env flags ds w = (Inr (), emit (Run [''umount'', flags, fst ds]) w)"
  using assms by (simp add: umount_one_def run_def Let_def)

lemma umount_one_target_busy:
  assumes "cmd_result env [''umount'', flags, fst ds] = (rc, stderr)" and "rc \<noteq> 0"
    and "\<not> contains ''no mount point specified'' stderr"
    and "contains ''target is busy'' stderr"
  shows "fst (umount_one env flags ds w) = Inl (TypeError ''the first argument must be callable'')"
  using assms by (simp add: umount_one_def run_def Let_def run_in_thread_def)

lemma for_each_umount_fail:
  assumes "list_all (\<lambda>y. fst (cmd_result env [''umount'', flags, fst y]) = 0) pre"
    and "\<And>w'. fst (umount_one env flags x w') = Inl e"
  shows "fst (for_each (umount_one env flags) (pre @ x # post) w) = Inl e
    \<and> trace (snd (for_each (umount_one env flags) (pre @ x # post) w))
        = trace w @ map (\<lambda>d. Run [''umount'', flags, fst d]) (pre @ [x])"
  using assms(1)
proof (induction pre arbitrary: w)
  case Nil
  obtain r w1 where s: "umount_one env flags x w = (r, w1)" by (cases "umount_one env flags x w")
  with assms(2)[of w] have "r = Inl e" by simp
  with s umount_one_trace[of env flags x w] show ?case by (simp add: bind_def)
next
  case (Cons y pre)
  obtain r w1 where s: "umount_one env flags y w = (r, w1)" by (cases "umount_one env flags y w")
  from Cons.prems have "fst (cmd_result env [''umount'', flags, fst y]) = 0" by simp
  from umount_one_ok[OF this, of w] s have r: "r = Inr ()" by simp
  from Cons.prems have "list_all (\<lambda>y. fst (cmd_result env [''umount'', flags, fst y]) = 0) pre" by simp
  from Cons.IH[OF this, of w1] s r umount_one_trace[of env flags y w]
  show ?case by (simp add: bind_def)
qed

lemma busy_cmd_result:
  "cmd_result busy_env [''umount'', ''-f'', ''tank/.system/cores'']
     = (32, ''umount: /var/db/system/cores: target is busy.'')"
  by (simp add: busy_env_def)

lemma busy_cmd_result_others:
  "list_all (\<lambda>y. fst (cmd_result busy_env [''umount'', ''-f'', fst y]) = 0)
     [(''tank/.system/ctdb_shared_vol'', ''ctdb_shared_vol''), (''tank/.system/glusterd'', ''glusterd''),
      (''tank/.system/services'', ''services''), (''tank/.system/webui'', ''webui''),
      (''tank/.system/configs-a1'', ''configs-a1''), (''tank/.system/rrd-a1'', ''rrd-a1''),
      (''tank/.system/syslog-a1'', ''syslog-a1''), (''tank/.system/samba4'', ''samba4'')]"
  by (simp add: busy_env_def)

text \<open>
  C7.  On the example system, where \<open>umount -f tank/.system/cores\<close> ends with "target is
  busy", \<open>__umount\<close> raises the \<open>TypeError\<close> of \<open>run_in_thread('get_mp', dataset)\<close>: no
  \<open>CallError\<close> is built and no list of processes is attached.  The datasets before
  \<open>cores\<close> in the reversed topology were unmounted, the root was not tried.
\<close>

theorem umount_target_busy_raises_TypeError:
  "fst (umount busy_env ''tank'' ''a1'' example_world)
     = Inl (TypeError ''the first argument must be callable'')
   \<and> run_cmds (trace (snd (umount busy_env ''tank'' ''a1'' example_world)))
     = [[''umount'', ''/var/lib/systemd/coredump''],
        [''umount'', ''-f'', ''tank/.system/ctdb_shared_vol''],
        [''umount'', ''-f'', ''tank/.system/glusterd''],
        [''umount'', ''-f'', ''tank/.system/services''],
        [''umount'', ''-f'', ''tank/.system/webui''],
        [''umount'', ''-f'', ''tank/.system/configs-a1''],
        [''umount'', ''-f'', ''tank/.system/rrd-a1''],
        [''umount'', ''-f'', ''tank/.system/syslog-a1''],
        [''umount'', ''-f'', ''tank/.system/samba4''],
        [''umount'', ''-f'', ''tank/.system/cores'']]"
proof -
  let ?pre = "[(''tank/.system/ctdb_shared_vol'', ''ctdb_shared_vol''), (''tank/.system/glusterd'', ''glusterd''),
      (''tank/.system/services'', ''services''), (''tank/.system/webui'', ''webui''),
      (''tank/.system/configs-a1'', ''configs-a1''), (''tank/.system/rrd-a1'', ''rrd-a1''),
      (''tank/.system/syslog-a1'', ''syslog-a1''), (''tank/.system/samba4'', ''samba4'')]"
  let ?x = "(''tank/.system/cores'', ''cores'')"
  let ?post = "[(''tank/.system'', [])]"
  have ds: "rev (get_datasets (ctdb_vol_name busy_env) ''tank'' ''a1'') = ?pre @ ?x # ?post"
    by (simp add: get_datasets_def child_labels_def busy_env_def example_env_def)
  have fl: "umount_flags busy_env = ''-f''"
    by (simp add: umount_flags_def busy_env_def example_env_def)
  have busy: "\<And>w'. fst (umount_one busy_env ''-f'' ?x w')
      = Inl (TypeError ''the first argument must be callable'')"
    by (rule umount_one_target_busy[where rc = 32 and stderr = "''umount: /var/db/system/cores: target is busy.''"])
      (simp_all add: busy_cmd_result)
  let ?w1 = "snd (run busy_env False [''umount'', ''/var/lib/systemd/coredump'']
                      (unmount_path ''/var/lib/systemd/coredump'') example_world)"
  have t1: "trace ?w1 = [Run [''umount'', ''/var/lib/systemd/coredump'']]"
    by (simp add: run_def Let_def example_world_def)
  from for_each_umount_fail[OF busy_cmd_result_others busy, of ?post ?w1]
  show ?thesis
    by (simp add: umount_def Let_def ds fl t1)
qed

subsection \<open>The quiesce guard\<close>

lemma trace_fold_service_stop:
  "trace (fold service_stop xs w) = trace w @ map ServiceStop xs"
  by (induction xs arbitrary: w) (simp_all add: service_stop_def)

lemma trace_fold_service_start:
  "trace (fold service_start xs w) = trace w @ map ServiceStart xs"
  by (induction xs arbitrary: w) (simp_all add: service_start_def)

lemma started_fold_service_start:
  "started (fold service_start xs w) s = (s \<in> set xs \<or> started w s)"
  by (induction xs arbitrary: w) (auto simp: service_start_def emit_def)

lemma use_syslog_fold_service_start [simp]:
  "use_syslog_dataset (fold service_start xs w) = use_syslog_dataset w"
  by (induction xs arbitrary: w) (simp_all add: service_start_def emit_def)

text \<open>
  C2.  Whatever the guarded block returns or raises, and whatever it does to the world:
  the guard stops the services of the restart list in list order before the block;
  after it, it first pops the cache key \<open>use_syslog_dataset\<close> and then starts the same
  services in the reversed order, and nothing else; the block's result is the guard's,
  and every service of the list runs at the end.
\<close>

theorem release_system_dataset_restarts_reversed:
  "fst (release_system_dataset env block w) = fst (block (release_enter (restart_list env w) w))
   \<and> trace (release_enter (restart_list env w) w)
       = trace w @ [CachePut ''use_syslog_dataset'' False, ServiceRestart ''syslogd'', StopLogging]
           @ map ServiceStop (restart_list env w)
   \<and> trace (snd (release_system_dataset env block w))
       = trace (snd (block (release_enter (restart_list env w) w)))
           @ CachePop ''use_syslog_dataset'' # map ServiceStart (rev (restart_list env w))
   \<and> use_syslog_dataset (snd (release_system_dataset env block w)) = None
   \<and> list_all (started (snd (release_system_dataset env block w))) (restart_list env w)"
  by (simp add: release_system_dataset_def release_enter_def release_exit_def Let_def
      trace_fold_service_stop trace_fold_service_start started_fold_service_start
      service_restart_def list_all_iff)

theorem release_system_dataset_restarts_reversed_witness:
  "restart_list example_env example_world = [''cifs'', ''collectd'', ''rrdcached'', ''syslogd'']
   \<and> fst (release_system_dataset example_env failing_block example_world)
       = Inl (CallError ''block failed'')
   \<and> trace (snd (release_system_dataset example_env failing_block example_world))
       = [CachePut ''use_syslog_dataset'' False, ServiceRestart ''syslogd'', StopLogging,
          ServiceStop ''cifs'', ServiceStop ''collectd'', ServiceStop ''rrdcached'',
          ServiceStop ''syslogd'',
          CachePop ''use_syslog_dataset'',
          ServiceStart ''syslogd'', ServiceStart ''rrdcached'', ServiceStart ''collectd'',
          ServiceStart ''cifs'']"
proof -
  have r: "restart_list example_env example_world = [''cifs'', ''collectd'', ''rrdcached'', ''syslogd'']"
    by (simp add: restart_list_def started_or_enabled_def example_env_def example_world_def)
  have t: "trace example_world = []" by (simp add: example_world_def)
  from release_system_dataset_restarts_reversed[of example_env failing_block example_world]
  show ?thesis by (simp add: r t failing_block_def)
qed

subsection \<open>The resolved configuration\<close>

lemma config_frame [simp]:
  "datasets (snd (config env w)) = datasets w" "mounts (snd (config env w)) = mounts w"
  "fs (snd (config env w)) = fs w" "force_pool (snd (config env w)) = force_pool w"
  "started (snd (config env w)) = started w"
  "use_syslog_dataset (snd (config env w)) = use_syslog_dataset w"
  "sys_pool (db (snd (config env w))) = sys_pool (db w)"
  by (simp_all add: config_def config_extend_def Let_def datastore_update_def)

lemma cfg_pool_config:
  "cfg_pool (fst (config env w))
     = or_else (force_pool w) (or_else (Some (sys_pool (db w))) (boot_pool_name env))"
  by (simp add: config_def config_extend_def Let_def)

lemma cfg_basename_config: "cfg_basename (fst (config env w)) = cfg_pool (fst (config env w)) @ ''/.system''"
  by (simp add: config_def config_extend_def Let_def)

lemma zfs_get_config [simp]: "zfs_get (snd (config env w)) = zfs_get w"
  by (simp add: zfs_get_def fun_eq_iff)

text \<open>
  C8.  The effective pool of a read is the forced pool when one is set (a non-empty
  name: \<open>force_pool\<close> only ever holds \<open>None\<close> or the boot pool's name), else the stored
  pool when it is not empty, else the boot pool.  \<open>setup\<close> behaves as if \<open>force_pool\<close>
  had been \<open>None\<close> when it was called: the attribute is cleared before anything reads
  it, so the first configuration \<open>setup\<close> reads resolves to the stored or the boot pool.
\<close>

theorem config_pool_resolution_setup_clears_force_pool:
  "(force_pool w = Some f \<and> f \<noteq> [] \<longrightarrow> cfg_pool (fst (config env w)) = f)
   \<and> ((force_pool w = None \<or> force_pool w = Some []) \<and> sys_pool (db w) \<noteq> []
        \<longrightarrow> cfg_pool (fst (config env w)) = sys_pool (db w))
   \<and> ((force_pool w = None \<or> force_pool w = Some []) \<and> sys_pool (db w) = []
        \<longrightarrow> cfg_pool (fst (config env w)) = boot_pool_name env)
   \<and> sysdataset_setup env update_job exclude_pool w
       = sysdataset_setup env update_job exclude_pool (w\<lparr>force_pool := None\<rparr>)
   \<and> cfg_pool (fst (config env (w\<lparr>force_pool := None\<rparr>)))
       = (if sys_pool (db w) \<noteq> [] then sys_pool (db w) else boot_pool_name env)"
proof -
  have "sysdataset_setup env update_job exclude_pool w
       = sysdataset_setup env update_job exclude_pool (w\<lparr>force_pool := None\<rparr>)"
    by (simp add: sysdataset_setup_def)
  then show ?thesis
    by (auto simp: cfg_pool_config or_else_def truthy_def)
qed

theorem config_pool_resolution_setup_clears_force_pool_witness:
  "cfg_pool (fst (config example_env forced_world)) = ''boot-pool''
   \<and> cfg_pool (fst (config example_env example_world)) = ''tank''
   \<and> cfg_pool (fst (config example_env unset_world)) = ''boot-pool''
   \<and> sysdataset_setup example_env no_update_job None forced_world
       = sysdataset_setup example_env no_update_job None (forced_world\<lparr>force_pool := None\<rparr>)
   \<and> cfg_pool (fst (config example_env (forced_world\<lparr>force_pool := None\<rparr>))) = ''tank''"
proof -
  have f: "force_pool forced_world = Some ''boot-pool''" "sys_pool (db forced_world) = ''tank''"
    "force_pool example_world = None" "sys_pool (db example_world) = ''tank''"
    "force_pool unset_world = None" "sys_pool (db unset_world) = []"
    "boot_pool_name example_env = ''boot-pool''"
    by (simp_all add: forced_world_def example_world_def unset_world_def example_env_def)
  from config_pool_resolution_setup_clears_force_pool[of forced_world "''boot-pool''" example_env no_update_job None]
    config_pool_resolution_setup_clears_force_pool[of example_world "[]" example_env no_update_job None]
    config_pool_resolution_setup_clears_force_pool[of unset_world "[]" example_env no_update_job None]
  show ?thesis by (simp add: f)
qed

subsection \<open>Pool choices\<close>

text \<open>
  C9.  The keys of \<open>pool_choices()\<close> always hold the boot pool's name and the effective
  pool of the current configuration, each mapped to itself, whatever the state of any
  root dataset.
\<close>

theorem pool_choices_has_boot_and_current:
  "fst (pool_choices env w) (boot_pool_name env) = Some (boot_pool_name env)
   \<and> fst (pool_choices env w) (cfg_pool (fst (config env w))) = Some (cfg_pool (fst (config env w)))"
  by (simp add: pool_choices_def Let_def)

theorem pool_choices_has_boot_and_current_witness:
  "pool_dataset_query (\<lambda>d. ds_name d = ''tank'' \<and> passphrase_or_locked d) locked_world \<noteq> []
   \<and> cfg_pool (fst (config example_env locked_world)) = ''tank''
   \<and> fst (pool_choices example_env locked_world) ''tank'' = Some ''tank''
   \<and> fst (pool_choices example_env locked_world) ''boot-pool'' = Some ''boot-pool''"
proof -
  have c: "cfg_pool (fst (config example_env locked_world)) = ''tank''"
    by (simp add: cfg_pool_config or_else_def truthy_def locked_world_def example_world_def)
  have b: "boot_pool_name example_env = ''boot-pool''" by (simp add: example_env_def)
  have l: "pool_dataset_query (\<lambda>d. ds_name d = ''tank'' \<and> passphrase_or_locked d) locked_world \<noteq> []"
    by (simp add: pool_dataset_query_def passphrase_or_locked_def locked_world_def example_dataset_def)
  from pool_choices_has_boot_and_current[of example_env locked_world] c b l
  show ?thesis by simp
qed

subsection \<open>The feasibility check\<close>

text \<open>\<open>int(used * 1.1)\<close> at the sizes of the example: 1 GiB needs 1181116006 bytes.\<close>

lemma int_times_1_1_examples:
  "int_times_1_1 0 = Inr 0" "int_times_1_1 10 = Inr 11" "int_times_1_1 30 = Inr 33"
  "int_times_1_1 1073741824 = Inr 1181116006"
  "int_times_1_1 9007199254740993 = Inr 9907919180215092"
  "int_times_1_1 18446744073709551615 = Inr 20291418481080508416"
  by (simp_all add: int_times_1_1_def round53_def round_half_even_def FLOAT_1_1_def
      bitlen.simps Let_def)

text \<open>
  C3.  With \<open>basename\<close> the dataset name of the current configuration:
  no dataset at \<open>basename\<close>: no error; a dataset there but none named \<open>new_pool\<close>: the
  "does not exist" message; both there: the "insufficient space" message if
  \<open>available < int(used * 1.1)\<close> and no error otherwise (an \<open>OverflowError\<close> of the
  multiplication is let through).
\<close>

theorem destination_pool_error_cases:
  "(zfs_get w (cfg_basename (fst (config env w))) = None
      \<longrightarrow> fst (destination_pool_error env new_pool w) = Inr None)
   \<and> (zfs_get w (cfg_basename (fst (config env w))) = Some existing \<and> zfs_get w new_pool = None
      \<longrightarrow> fst (destination_pool_error env new_pool w)
            = Inr (Some (''Dataset '' @ new_pool @ '' does not exist'')))
   \<and> (zfs_get w (cfg_basename (fst (config env w))) = Some existing
        \<and> zfs_get w new_pool = Some new_dataset
        \<and> int_times_1_1 (ds_used existing) = Inr required
      \<longrightarrow> fst (destination_pool_error env new_pool w)
            = (if ds_available new_dataset < required
               then Inr (Some (''Insufficient disk space available on '' @ new_pool
                        @ '' ('' @ format_size env (ds_available new_dataset) @ ''). Need ''
                        @ format_size env required))
               else Inr None))
   \<and> (zfs_get w (cfg_basename (fst (config env w))) = Some existing
        \<and> zfs_get w new_pool = Some new_dataset
        \<and> int_times_1_1 (ds_used existing) = Inl e
      \<longrightarrow> fst (destination_pool_error env new_pool w) = Inl e)"
  by (simp add: destination_pool_error_def Let_def)

lemma example_basename:
  "cfg_basename (fst (config example_env example_world)) = ''tank/.system''"
  "cfg_basename (fst (config example_env fresh_world)) = ''tank/.system''"
  "cfg_basename (fst (config example_env small_backup_world)) = ''tank/.system''"
  by (simp_all add: cfg_basename_config cfg_pool_config or_else_def truthy_def
      example_world_def fresh_world_def small_backup_world_def)

theorem destination_pool_error_cases_witness:
  "fst (destination_pool_error example_env ''backup'' fresh_world) = Inr None
   \<and> fst (destination_pool_error example_env ''nopool'' example_world)
       = Inr (Some ''Dataset nopool does not exist'')
   \<and> fst (destination_pool_error example_env ''backup'' example_world) = Inr None
   \<and> fst (destination_pool_error example_env ''backup'' small_backup_world)
       = Inr (Some ''Insufficient disk space available on backup ((size)). Need (size)'')"
proof -
  let ?sys = "example_dataset ''tank/.system'' (1024 ^ 3) (100 * 1024 ^ 3)"
  have g1: "zfs_get fresh_world ''tank/.system'' = None"
    by (simp add: zfs_get_def fresh_world_def example_world_def example_dataset_def)
  have g2: "zfs_get example_world ''tank/.system'' = Some ?sys"
    "zfs_get example_world ''nopool'' = None"
    "zfs_get example_world ''backup'' = Some (example_dataset ''backup'' 1024 (2 * 1024 ^ 3))"
    by (simp_all add: zfs_get_def example_world_def example_dataset_def)
  have g3: "zfs_get small_backup_world ''tank/.system'' = Some ?sys"
    "zfs_get small_backup_world ''backup'' = Some (example_dataset ''backup'' 1024 (512 * 1024 ^ 2))"
    by (simp_all add: zfs_get_def small_backup_world_def example_world_def example_dataset_def)
  have sel: "\<And>n u a. ds_used (example_dataset n u a) = u"
    "\<And>n u a. ds_available (example_dataset n u a) = a"
    by (simp_all add: example_dataset_def)
  have f: "format_size example_env = (\<lambda>n. ''(size)'')" by (simp add: example_env_def)
  from destination_pool_error_cases[where w = fresh_world and env = example_env
        and new_pool = "''backup''"]
    destination_pool_error_cases[where w = example_world and env = example_env
        and new_pool = "''nopool''" and existing = ?sys]
    destination_pool_error_cases[where w = example_world and env = example_env
        and new_pool = "''backup''" and existing = ?sys
        and new_dataset = "example_dataset ''backup'' 1024 (2 * 1024 ^ 3)" and required = 1181116006]
    destination_pool_error_cases[where w = small_backup_world and env = example_env
        and new_pool = "''backup''" and existing = ?sys
        and new_dataset = "example_dataset ''backup'' 1024 (512 * 1024 ^ 2)" and required = 1181116006]
  show ?thesis
    by (simp add: example_basename g1 g2 g3 sel int_times_1_1_examples f)
qed

subsection \<open>Automatic pool selection\<close>

lemma destination_pool_error_world:
  "snd (destination_pool_error env name w) = snd (config env w)"
  by (simp add: destination_pool_error_def Let_def split: option.splits sum.splits)

lemma config_config:
  "cfg_basename (fst (config env (snd (config env w)))) = cfg_basename (fst (config env w))"
  by (simp add: cfg_basename_config cfg_pool_config)

lemma destination_pool_error_config:
  "fst (destination_pool_error env name (snd (config env w))) = fst (destination_pool_error env name w)"
  by (simp add: destination_pool_error_def Let_def config_config split: option.splits sum.splits)

lemma pool_dataset_query_config [simp]:
  "pool_dataset_query flt (snd (config env w)) = pool_dataset_query flt w"
  by (simp add: pool_dataset_query_def)

lemma ineligible_config [simp]:
  "ineligible env ex (snd (config env w)) = ineligible env ex w"
  by (simp add: fun_eq_iff ineligible_def infeasible_def destination_pool_error_config)

lemma auto_select_pool_safe:
  "auto_select_pool env ex pools w = (Inr p, w') \<Longrightarrow> p \<noteq> []
   \<Longrightarrow> p \<in> set pools \<and> ex \<noteq> Some p
       \<and> pool_dataset_query (\<lambda>d. ds_name d = p \<and> passphrase_or_locked d) w = []
       \<and> \<not> ineligible env ex w p"
proof (induction pools arbitrary: w)
  case Nil
  then show ?case by simp
next
  case (Cons name rest)
  show ?case
  proof (cases "ex = Some name
         \<or> pool_dataset_query (\<lambda>d. ds_name d = name \<and> passphrase_or_locked d) w \<noteq> []")
    case True
    with Cons.prems have "auto_select_pool env ex rest w = (Inr p, w')" by auto
    from Cons.IH[OF this Cons.prems(2)] show ?thesis by simp
  next
    case False
    obtain r w1 where s: "destination_pool_error env name w = (r, w1)"
      by (cases "destination_pool_error env name w")
    have w1: "w1 = snd (config env w)"
      using destination_pool_error_world[of env name w] s by simp
    from Cons.prems(1) False s obtain error where r: "r = Inr error"
      by (cases r) (simp_all add: bind_def)
    show ?thesis
    proof (cases "truthy_opt error")
      case True
      with Cons.prems(1) False s r have "auto_select_pool env ex rest w1 = (Inr p, w')"
        by (simp add: bind_def)
      from Cons.IH[OF this Cons.prems(2)] w1 show ?thesis by simp
    next
      case f: False
      with Cons.prems(1) False s r have "p = name" by (simp add: bind_def)
      with False f s r show ?thesis by (simp add: ineligible_def infeasible_def)
    qed
  qed
qed

lemma auto_select_pool_exhausted:
  "list_all (ineligible env ex w) pools \<Longrightarrow> fst (auto_select_pool env ex pools w) = Inr []"
proof (induction pools arbitrary: w)
  case Nil
  then show ?case by simp
next
  case (Cons name rest)
  then have rest: "list_all (ineligible env ex w) rest" and n: "ineligible env ex w name"
    by simp_all
  show ?case
  proof (cases "ex = Some name
         \<or> pool_dataset_query (\<lambda>d. ds_name d = name \<and> passphrase_or_locked d) w \<noteq> []")
    case True
    with Cons.IH[OF rest] show ?thesis by auto
  next
    case False
    obtain r w1 where s: "destination_pool_error env name w = (r, w1)"
      by (cases "destination_pool_error env name w")
    have w1: "w1 = snd (config env w)"
      using destination_pool_error_world[of env name w] s by simp
    from n False s obtain error where r: "r = Inr error" and t: "truthy_opt error"
      by (cases r) (simp_all add: ineligible_def infeasible_def)
    from rest w1 have "list_all (ineligible env ex w1) rest" by simp
    from Cons.IH[OF this] False s r t show ?thesis by (simp add: bind_def)
  qed
qed

lemma query_pool_loop_safe:
  "query_pool_loop ex pools w = Some p
   \<Longrightarrow> p \<in> set pools \<and> (p \<noteq> [] \<longrightarrow> ex \<noteq> Some p)
       \<and> pool_dataset_query (\<lambda>d. ds_name d = p \<and> passphrase_or_locked d) w = []"
  by (induction pools) (auto simp: truthy_opt_def truthy_def split: if_splits)

lemma validate_update_no_pool:
  assumes "u_pool data = Some None"
  shows "validate_update env data conf w
    = bind (auto_select_pool env (u_pool_exclude data) (pool_query env) w) (\<lambda>p w'.
        if system_ready env \<and> ad_enabled env then
          (Inl (ValidationErrors [(''sysdataset_update.pool'',
             ''System dataset location may not be moved while the Active Directory service is enabled.'',
             EPERM)]), w')
        else (Inr p, w'))"
  using assms
  by (simp add: validate_update_def Let_def bind_def or_else_def truthy_opt_def truthy_def
      split: prod.splits sum.splits)

lemma store_update_pool [simp]: "sys_pool (db (store_update data conf p w)) = p"
  by (simp add: store_update_def datastore_update_def Let_def)

lemma store_update_force_pool [simp]: "force_pool (store_update data conf p w) = force_pool w"
  by (simp add: store_update_def datastore_update_def Let_def)

text \<open>
  C4.  With \<open>pool: null\<close> in the update, the automatic selection (and
  \<open>_query_pool_for_system_dataset\<close> in \<open>setup\<close>) only ever yields a pool of \<open>pool.query\<close>
  that is not the excluded pool and whose root dataset is neither passphrase-encrypted
  nor locked.  When every candidate is ineligible the selection does not raise and
  yields the empty string.  The validation then fails only through the Active
  Directory guard (system ready and AD state \<open>HEALTHY\<close> or \<open>FAULTED\<close>); without it the
  empty string is what \<open>datastore.update\<close> stores, and the next read resolves to the
  forced pool if one is set and to the boot pool otherwise.
\<close>

theorem auto_select_pool_eligible_or_unset:
  "(auto_select_pool env ex pools w = (Inr p, w') \<and> p \<noteq> []
      \<longrightarrow> p \<in> set pools \<and> ex \<noteq> Some p
          \<and> pool_dataset_query (\<lambda>d. ds_name d = p \<and> passphrase_or_locked d) w = [])
   \<and> (query_pool_for_system_dataset env ex w = Some p \<and> p \<noteq> []
      \<longrightarrow> p \<in> set (pool_query env) \<and> ex \<noteq> Some p
          \<and> pool_dataset_query (\<lambda>d. ds_name d = p \<and> passphrase_or_locked d) w = [])
   \<and> (list_all (ineligible env ex w) pools \<longrightarrow> fst (auto_select_pool env ex pools w) = Inr [])
   \<and> (u_pool data = Some None \<and> list_all (ineligible env (u_pool_exclude data) w) (pool_query env)
      \<longrightarrow> fst (validate_update env data conf w)
            = (if system_ready env \<and> ad_enabled env
               then Inl (ValidationErrors [(''sysdataset_update.pool'',
                      ''System dataset location may not be moved while the Active Directory service is enabled.'',
                      EPERM)])
               else Inr []))
   \<and> sys_pool (db (store_update data conf [] w)) = []
   \<and> cfg_pool (fst (config env (store_update data conf [] w)))
       = or_else (force_pool w) (boot_pool_name env)"
proof -
  have 1: "auto_select_pool env ex pools w = (Inr p, w') \<and> p \<noteq> []
      \<longrightarrow> p \<in> set pools \<and> ex \<noteq> Some p
          \<and> pool_dataset_query (\<lambda>d. ds_name d = p \<and> passphrase_or_locked d) w = []"
    using auto_select_pool_safe[of env ex pools w p w'] by blast
  have 2: "query_pool_for_system_dataset env ex w = Some p \<and> p \<noteq> []
      \<longrightarrow> p \<in> set (pool_query env) \<and> ex \<noteq> Some p
          \<and> pool_dataset_query (\<lambda>d. ds_name d = p \<and> passphrase_or_locked d) w = []"
    using query_pool_loop_safe[of ex "pool_query env" w p]
    by (simp add: query_pool_for_system_dataset_def)
  have 3: "list_all (ineligible env ex w) pools \<longrightarrow> fst (auto_select_pool env ex pools w) = Inr []"
    by (simp add: auto_select_pool_exhausted)
  have 4: "u_pool data = Some None \<and> list_all (ineligible env (u_pool_exclude data) w) (pool_query env)
      \<longrightarrow> fst (validate_update env data conf w)
            = (if system_ready env \<and> ad_enabled env
               then Inl (ValidationErrors [(''sysdataset_update.pool'',
                      ''System dataset location may not be moved while the Active Directory service is enabled.'',
                      EPERM)])
               else Inr [])"
  proof
    assume a: "u_pool data = Some None \<and> list_all (ineligible env (u_pool_exclude data) w) (pool_query env)"
    obtain r w1 where s: "auto_select_pool env (u_pool_exclude data) (pool_query env) w = (r, w1)"
      by (cases "auto_select_pool env (u_pool_exclude data) (pool_query env) w")
    from a auto_select_pool_exhausted[of env "u_pool_exclude data" w "pool_query env"] s
    have "r = Inr []" by simp
    with a s show "fst (validate_update env data conf w)
            = (if system_ready env \<and> ad_enabled env
               then Inl (ValidationErrors [(''sysdataset_update.pool'',
                      ''System dataset location may not be moved while the Active Directory service is enabled.'',
                      EPERM)])
               else Inr [])"
      by (simp add: validate_update_no_pool bind_def)
  qed
  have 5: "cfg_pool (fst (config env (store_update data conf [] w)))
       = or_else (force_pool w) (boot_pool_name env)"
    by (simp add: cfg_pool_config or_else_def truthy_def)
  from 1 2 3 4 5 show ?thesis by simp
qed

lemma example_select_backup:
  "fst (auto_select_pool example_env (Some ''tank'') [''tank'', ''backup''] example_world) = Inr ''backup''"
proof -
  have q: "pool_dataset_query (\<lambda>d. ds_name d = ''backup'' \<and> passphrase_or_locked d) example_world = []"
    by (simp add: pool_dataset_query_def passphrase_or_locked_def example_world_def example_dataset_def)
  have d: "fst (destination_pool_error example_env ''backup'' example_world) = Inr None"
    using destination_pool_error_cases_witness by simp
  obtain r w1 where s: "destination_pool_error example_env ''backup'' example_world = (r, w1)"
    by (cases "destination_pool_error example_env ''backup'' example_world")
  with d have "r = Inr None" by simp
  with s q show ?thesis by (simp add: bind_def truthy_opt_def)
qed

lemma example_query_backup:
  "query_pool_for_system_dataset example_env (Some ''tank'') example_world = Some ''backup''"
  by (simp add: query_pool_for_system_dataset_def example_env_def truthy_opt_def truthy_def
      pool_dataset_query_def passphrase_or_locked_def example_world_def example_dataset_def)

lemma tank_excluded:
  "list_all (ineligible single_pool_env (Some ''tank'') example_world) (pool_query single_pool_env)"
  "list_all (ineligible ad_env (Some ''tank'') example_world) (pool_query ad_env)"
  by (simp_all add: ineligible_def single_pool_env_def ad_env_def example_env_def)

theorem auto_select_pool_eligible_or_unset_witness:
  "fst (auto_select_pool example_env (Some ''tank'') [''tank'', ''backup''] example_world) = Inr ''backup''
   \<and> pool_dataset_query (\<lambda>d. ds_name d = ''backup'' \<and> passphrase_or_locked d) example_world = []
   \<and> query_pool_for_system_dataset example_env (Some ''tank'') example_world = Some ''backup''
   \<and> list_all (ineligible single_pool_env (Some ''tank'') example_world) (pool_query single_pool_env)
   \<and> fst (auto_select_pool single_pool_env (Some ''tank'') (pool_query single_pool_env) example_world) = Inr []
   \<and> fst (validate_update single_pool_env export_tank (fst (config single_pool_env example_world))
            example_world) = Inr []
   \<and> cfg_pool (fst (config single_pool_env
            (store_update export_tank (fst (config single_pool_env example_world)) [] example_world)))
       = ''boot-pool''"
proof -
  let ?sel = "auto_select_pool example_env (Some ''tank'') [''tank'', ''backup''] example_world"
  let ?conf = "fst (config single_pool_env example_world)"
  have s: "?sel = (Inr ''backup'', snd ?sel)"
    using example_select_backup by (simp only: prod_eq_iff fst_conv snd_conv simp_thms)
  have ne: "''backup'' \<noteq> []" by simp
  have e: "u_pool export_tank = Some None"
    and x: "u_pool_exclude export_tank = Some ''tank''"
    and a: "\<not> (system_ready single_pool_env \<and> ad_enabled single_pool_env)"
    and b: "or_else (force_pool example_world) (boot_pool_name single_pool_env) = ''boot-pool''"
    by (simp_all add: export_tank_def single_pool_env_def example_env_def ad_enabled_def
        example_world_def or_else_def)
  note T1 = auto_select_pool_eligible_or_unset[where env = example_env and ex = "Some ''tank''"
      and pools = "[''tank'', ''backup'']" and w = example_world and p = "''backup''"
      and w' = "snd ?sel"]
  note T2 = auto_select_pool_eligible_or_unset[where env = single_pool_env
      and ex = "u_pool_exclude export_tank"
      and pools = "pool_query single_pool_env" and w = example_world and data = export_tank
      and conf = ?conf]
  from T1 s ne have 1: "pool_dataset_query (\<lambda>d. ds_name d = ''backup'' \<and> passphrase_or_locked d) example_world = []"
    by blast
  from T2 tank_excluded(1) x
  have 2: "fst (auto_select_pool single_pool_env (Some ''tank'') (pool_query single_pool_env) example_world) = Inr []"
    by (simp only: simp_thms)
  from T2 tank_excluded(1) x e a
  have 3: "fst (validate_update single_pool_env export_tank ?conf example_world) = Inr []"
    by (simp only: simp_thms if_False)
  from T2 b
  have 4: "cfg_pool (fst (config single_pool_env (store_update export_tank ?conf [] example_world)))
       = ''boot-pool''"
    by (simp only: simp_thms)
  from example_select_backup 1 example_query_backup tank_excluded(1) 2 3 4
  show ?thesis by (simp only: simp_thms)
qed

text \<open>
  The claim as stated fails where the Active Directory guard applies: on the example
  with AD joined, exporting \<open>tank\<close> (the only pool, excluded) leaves no eligible
  candidate, and the update raises the guard's validation error; the stored pool is
  still \<open>tank\<close>.
\<close>

theorem auto_select_exhausted_update_fails_counterexample:
  "list_all (ineligible ad_env (u_pool_exclude export_tank) example_world) (pool_query ad_env)
   \<and> u_pool export_tank = Some None
   \<and> fst (do_update ad_env no_update_job export_tank example_world)
       = Inl (ValidationErrors [(''sysdataset_update.pool'',
            ''System dataset location may not be moved while the Active Directory service is enabled.'',
            EPERM)])
   \<and> sys_pool (db (snd (do_update ad_env no_update_job export_tank example_world))) = ''tank''"
proof -
  have e: "u_pool export_tank = Some None" "u_pool_exclude export_tank = Some ''tank''"
    "system_ready ad_env = True" "ad_enabled ad_env = True"
    by (simp_all add: export_tank_def ad_env_def example_env_def ad_enabled_def)
  let ?cw = "config ad_env example_world"
  have i: "list_all (ineligible ad_env (Some ''tank'') (snd ?cw)) (pool_query ad_env)"
    using tank_excluded(2) by simp
  let ?sel = "auto_select_pool ad_env (Some ''tank'') (pool_query ad_env) (snd ?cw)"
  obtain r w1 where s: "?sel = (r, w1)" by (cases ?sel)
  have r: "r = Inr []" using auto_select_pool_exhausted[OF i] s by simp
  have w1: "w1 = snd ?cw"
    using s by (simp add: ad_env_def example_env_def bind_def)
  have v: "validate_update ad_env export_tank (fst ?cw) (snd ?cw)
     = (Inl (ValidationErrors [(''sysdataset_update.pool'',
            ''System dataset location may not be moved while the Active Directory service is enabled.'',
            EPERM)]), snd ?cw)"
    using s r w1 e by (simp add: validate_update_no_pool bind_def)
  have d: "sys_pool (db example_world) = ''tank''" by (simp add: example_world_def)
  show ?thesis
    using tank_excluded(2) e v d by (simp add: do_update_def Let_def bind_def)
qed

subsection \<open>The cores dataset in \<open>__setup_datasets\<close>\<close>

lemma names_root_cores:
  "map fst (get_datasets vol pool uuid)
     = (pool @ ''/.system'') # (pool @ ''/.system/cores'')
         # map (\<lambda>i. pool @ ''/.system/'' @ i) (tl (child_labels vol uuid))"
  by (simp add: get_datasets_def child_labels_def)

lemma cores_is_cores: "suffix ''/cores'' (pool @ ''/.system/cores'')"
proof -
  have "pool @ ''/.system/cores'' = (pool @ ''/.system'') @ ''/cores''" by simp
  then show ?thesis unfolding suffix_def by blast
qed

lemma dataset_props_cores:
  "dataset_props (pool @ ''/.system/cores'')
     = [(''mountpoint'', ''legacy''), (''readonly'', ''off''), (''snapdir'', ''hidden''),
        (''quota'', ''1G'')]"
  using cores_is_cores[of pool] by (simp add: dataset_props_def)

lemma query_datasets_prop_None:
  "n \<in> set names \<Longrightarrow> query_datasets_prop w names n = None \<longleftrightarrow> zfs_get w n = None"
  by (auto simp: query_datasets_prop_def dict_of_def zfs_get_def map_of_eq_None_iff find_None_iff
      image_iff)

lemma query_datasets_prop_Some:
  "query_datasets_prop w names n = Some d \<Longrightarrow> d \<in> set (datasets w) \<and> ds_name d = n"
  by (auto simp: query_datasets_prop_def dict_of_def dest!: map_of_SomeD)

lemma setup_datasets_steps:
  "setup_datasets env pool uuid w
     = bind (setup_dataset env (query_datasets_prop w (map fst (get_datasets (ctdb_vol_name env) pool uuid)))
               (pool @ ''/.system'') w)
         (\<lambda>_ w1. bind (setup_dataset env (query_datasets_prop w (map fst (get_datasets (ctdb_vol_name env) pool uuid)))
               (pool @ ''/.system/cores'') w1)
            (\<lambda>_. for_each (setup_dataset env (query_datasets_prop w (map fst (get_datasets (ctdb_vol_name env) pool uuid))))
                    (drop 2 (map fst (get_datasets (ctdb_vol_name env) pool uuid)))))"
  by (simp add: setup_datasets_def Let_def names_root_cores del: map_tl)

lemma find_append_cases:
  "find P (xs @ ys) = (case find P xs of None \<Rightarrow> find P ys | Some x \<Rightarrow> Some x)"
  by (induction xs) simp_all

lemma zfs_create_ok:
  "zfs_create env name props w = (Inr (), w')
   \<Longrightarrow> zfs_get w' name = Some \<lparr>ds_name = name, ds_props = props, ds_used = 0, ds_available = 0,
                       ds_encrypted = False, ds_key_format = [], ds_locked = False\<rparr>
       \<and> trace w' = trace w @ [ZfsCreate name props]"
  by (auto simp: zfs_create_def Let_def zfs_get_def find_append_cases
      split: option.splits if_splits)

lemma path_under_self [simp]: "path_under p p"
  by (simp add: path_under_def)

lemma zfs_get_after_delete:
  "zfs_get (w\<lparr>datasets := filter (\<lambda>d. \<not> path_under name (ds_name d)) (datasets w), mounts := m\<rparr>) name = None"
  by (auto simp: zfs_get_def find_None_iff)

text \<open>The three ways the replacement of an oversized dataset can end.\<close>

lemma replace_ok:
  assumes "zfs_delete_error env name = None" "zfs_get w name \<noteq> None" "zfs_create_error env name = None"
  shows "bind (zfs_delete env name w) (\<lambda>_. zfs_create env name props)
    = (Inr (), w\<lparr>trace := trace w @ [ZfsDelete name, ZfsCreate name props],
          datasets := filter (\<lambda>d. \<not> path_under name (ds_name d)) (datasets w) @
             [\<lparr>ds_name = name, ds_props = props, ds_used = 0, ds_available = 0,
               ds_encrypted = False, ds_key_format = [], ds_locked = False\<rparr>],
          mounts := filter (\<lambda>m. \<not> path_under name (fst m)) (mounts w)\<rparr>)"
  using assms
  by (auto simp: zfs_delete_def zfs_create_def bind_def Let_def emit_def zfs_get_def find_None_iff)

lemma replace_delete_fails:
  assumes "zfs_delete_error env name \<noteq> None \<or> zfs_get w name = None"
  shows "\<exists>e. bind (zfs_delete env name w) (\<lambda>_. zfs_create env name props)
    = (Inl e, emit (ZfsDelete name) w)"
  using assms
  by (auto simp: zfs_delete_def bind_def Let_def zfs_get_def split: option.splits)

lemma replace_create_fails:
  assumes "zfs_delete_error env name = None" "zfs_get w name \<noteq> None" "zfs_create_error env name = Some msg"
  shows "bind (zfs_delete env name w) (\<lambda>_. zfs_create env name props)
    = (Inl (ZfsException msg), w\<lparr>trace := trace w @ [ZfsDelete name, ZfsCreate name props],
          datasets := filter (\<lambda>d. \<not> path_under name (ds_name d)) (datasets w),
          mounts := filter (\<lambda>m. \<not> path_under name (fst m)) (mounts w)\<rparr>)"
  using assms
  by (auto simp: zfs_delete_def zfs_create_def bind_def Let_def emit_def zfs_get_def find_None_iff)

lemma update_props_dict_quota:
  "update_props_dict cur
      [(''mountpoint'', ''legacy''), (''readonly'', ''off''), (''snapdir'', ''hidden''), (''quota'', ''1G'')]
     = Inr upd
   \<Longrightarrow> ((''quota'', ''1G'') \<in> set upd) = (map_of cur ''quota'' \<noteq> Some ''1G'')"
  by (auto split: option.splits if_splits)

text \<open>
  C10.  A pass of \<open>__setup_datasets\<close> handles the root dataset, then
  \<open><pool>/.system/cores\<close>, then the other children, each against the properties read
  before the loop.  For the cores dataset the requested properties carry \<open>quota = 1G\<close>:
  a missing dataset is created with them; one that exists with \<open>used >= 1024^3\<close> is
  deleted (force, recursive: its children go with it) and created again, and if either
  call raises a warning is logged and the step still returns normally; a smaller one
  gets an update of the properties that differ, \<open>quota\<close> among them unless it already
  is \<open>1G\<close>.
\<close>

theorem setup_datasets_cores_quota:
  "let cores = pool @ ''/.system/cores'';
       props = [(''mountpoint'', ''legacy''), (''readonly'', ''off''), (''snapdir'', ''hidden''),
                (''quota'', ''1G'')];
       names = map fst (get_datasets (ctdb_vol_name env) pool uuid);
       datasets_prop = query_datasets_prop w names;
       fresh = \<lparr>ds_name = cores, ds_props = props, ds_used = 0, ds_available = 0,
                ds_encrypted = False, ds_key_format = [], ds_locked = False\<rparr>;
       warning = LogWarning ''Failed to replace dataset [%s].'' [cores];
       step = setup_dataset env datasets_prop cores w1
   in setup_datasets env pool uuid w
        = bind (setup_dataset env datasets_prop (pool @ ''/.system'') w)
            (\<lambda>_ w1. bind (setup_dataset env datasets_prop cores w1)
               (\<lambda>_. for_each (setup_dataset env datasets_prop) (drop 2 names)))
    \<and> (datasets_prop cores = None \<longleftrightarrow> zfs_get w cores = None)
    \<and> (datasets_prop cores = None \<longrightarrow> step = zfs_create env cores props w1)
    \<and> (zfs_create env cores props w1 = (Inr (), w2) \<longrightarrow> zfs_get w2 cores = Some fresh)
    \<and> (datasets_prop cores = Some d \<and> 1024 ^ 3 \<le> ds_used d \<longrightarrow>
          fst step = Inr ()
          \<and> (zfs_delete_error env cores = None \<and> zfs_get w1 cores \<noteq> None
               \<and> zfs_create_error env cores = None
              \<longrightarrow> trace (snd step) = trace w1 @ [ZfsDelete cores, ZfsCreate cores props]
                  \<and> datasets (snd step)
                      = filter (\<lambda>x. \<not> path_under cores (ds_name x)) (datasets w1) @ [fresh])
          \<and> (zfs_delete_error env cores \<noteq> None \<or> zfs_get w1 cores = None
              \<longrightarrow> snd step = emit warning (emit (ZfsDelete cores) w1))
          \<and> (zfs_delete_error env cores = None \<and> zfs_get w1 cores \<noteq> None
               \<and> zfs_create_error env cores \<noteq> None
              \<longrightarrow> trace (snd step) = trace w1 @ [ZfsDelete cores, ZfsCreate cores props, warning]
                  \<and> datasets (snd step)
                      = filter (\<lambda>x. \<not> path_under cores (ds_name x)) (datasets w1)))
    \<and> (datasets_prop cores = Some d \<and> ds_used d < 1024 ^ 3
         \<and> update_props_dict (ds_props d) props = Inr upd \<longrightarrow>
          step = (if upd \<noteq> [] then zfs_update env cores upd w1 else (Inr (), w1))
          \<and> (((''quota'', ''1G'') \<in> set upd) = (map_of (ds_props d) ''quota'' \<noteq> Some ''1G'')))"
proof -
  define cores where "cores = pool @ ''/.system/cores''"
  define props where "props = [(''mountpoint'', ''legacy''), (''readonly'', ''off''),
     (''snapdir'', ''hidden''), (''quota'', ''1G'')]"
  define names where "names = map fst (get_datasets (ctdb_vol_name env) pool uuid)"
  define dp where "dp = query_datasets_prop w names"
  define fresh where "fresh = \<lparr>ds_name = cores, ds_props = props, ds_used = 0, ds_available = 0,
                ds_encrypted = False, ds_key_format = [], ds_locked = False\<rparr>"
  define warning where "warning = LogWarning ''Failed to replace dataset [%s].'' [cores]"
  define step where "step = setup_dataset env dp cores w1"
  have dprops: "dataset_props cores = props" and iscores: "suffix ''/cores'' cores"
    by (simp_all add: cores_def props_def dataset_props_cores cores_is_cores)
  have mem: "cores \<in> set names"
    by (simp add: names_def cores_def names_root_cores)
  have 1: "setup_datasets env pool uuid w
        = bind (setup_dataset env dp (pool @ ''/.system'') w)
            (\<lambda>_ w1. bind (setup_dataset env dp cores w1)
               (\<lambda>_. for_each (setup_dataset env dp) (drop 2 names)))"
    unfolding dp_def names_def cores_def by (rule setup_datasets_steps)
  have 2: "dp cores = None \<longleftrightarrow> zfs_get w cores = None"
    unfolding dp_def using mem by (rule query_datasets_prop_None)
  have 3: "dp cores = None \<longrightarrow> step = zfs_create env cores props w1"
    by (simp add: step_def setup_dataset_def dprops Let_def)
  have 4: "zfs_create env cores props w1 = (Inr (), w2) \<longrightarrow> zfs_get w2 cores = Some fresh"
    using zfs_create_ok[of env cores props w1 w2] by (simp add: fresh_def)
  have 5: "fst step = Inr ()" if "dp cores = Some d \<and> 1024 ^ 3 \<le> ds_used d"
    using that iscores
    by (simp add: step_def setup_dataset_def dprops Let_def split: prod.splits sum.splits)
  have 6: "trace (snd step) = trace w1 @ [ZfsDelete cores, ZfsCreate cores props]
           \<and> datasets (snd step) = filter (\<lambda>x. \<not> path_under cores (ds_name x)) (datasets w1) @ [fresh]"
    if "dp cores = Some d \<and> 1024 ^ 3 \<le> ds_used d"
      and "zfs_delete_error env cores = None \<and> zfs_get w1 cores \<noteq> None \<and> zfs_create_error env cores = None"
    using that iscores replace_ok[of env cores w1 props]
    by (simp add: step_def setup_dataset_def dprops Let_def fresh_def)
  have 7: "snd step = emit warning (emit (ZfsDelete cores) w1)"
    if "dp cores = Some d \<and> 1024 ^ 3 \<le> ds_used d"
      and "zfs_delete_error env cores \<noteq> None \<or> zfs_get w1 cores = None"
  proof -
    from replace_delete_fails[OF that(2), of props] obtain e where
      "bind (zfs_delete env cores w1) (\<lambda>_. zfs_create env cores props) = (Inl e, emit (ZfsDelete cores) w1)"
      by blast
    with that(1) iscores show ?thesis
      by (simp add: step_def setup_dataset_def dprops Let_def warning_def)
  qed
  have 8: "trace (snd step) = trace w1 @ [ZfsDelete cores, ZfsCreate cores props, warning]
           \<and> datasets (snd step) = filter (\<lambda>x. \<not> path_under cores (ds_name x)) (datasets w1)"
    if "dp cores = Some d \<and> 1024 ^ 3 \<le> ds_used d"
      and "zfs_delete_error env cores = None \<and> zfs_get w1 cores \<noteq> None \<and> zfs_create_error env cores \<noteq> None"
  proof -
    from that(2) obtain msg where "zfs_create_error env cores = Some msg" by auto
    with that iscores replace_create_fails[of env cores w1 msg props] show ?thesis
      by (simp add: step_def setup_dataset_def dprops Let_def warning_def)
  qed
  have 9: "step = (if upd \<noteq> [] then zfs_update env cores upd w1 else (Inr (), w1))
          \<and> (((''quota'', ''1G'') \<in> set upd) = (map_of (ds_props d) ''quota'' \<noteq> Some ''1G''))"
    if "dp cores = Some d \<and> ds_used d < 1024 ^ 3 \<and> update_props_dict (ds_props d) props = Inr upd"
    using that update_props_dict_quota[of "ds_props d" upd]
    by (simp add: step_def setup_dataset_def dprops Let_def props_def)
  from 1 2 3 4 5 6 7 8 9 show ?thesis
    unfolding Let_def cores_def[symmetric] props_def[symmetric] names_def[symmetric]
      dp_def[symmetric] fresh_def[symmetric] warning_def[symmetric] step_def[symmetric]
    by blast
qed

lemma example_names:
  "map fst (get_datasets (ctdb_vol_name example_env) ''tank'' ''a1'')
     = [''tank/.system'', ''tank/.system/cores'', ''tank/.system/samba4'', ''tank/.system/syslog-a1'',
        ''tank/.system/rrd-a1'', ''tank/.system/configs-a1'', ''tank/.system/webui'',
        ''tank/.system/services'', ''tank/.system/glusterd'', ''tank/.system/ctdb_shared_vol'']"
  "ctdb_vol_name no_delete_env = ctdb_vol_name example_env"
  by (simp_all add: get_datasets_def child_labels_def example_env_def no_delete_env_def)

lemma full_cores_snapshot:
  "query_datasets_prop full_cores_world
      (map fst (get_datasets (ctdb_vol_name example_env) ''tank'' ''a1'')) ''tank/.system/cores''
     = Some ((example_dataset ''tank/.system/cores'' (3 * 1024 ^ 3) (100 * 1024 ^ 3))
        \<lparr>ds_props := [(''mountpoint'', ''legacy''), (''readonly'', ''off''), (''snapdir'', ''hidden''),
                      (''quota'', ''1G''), (''acltype'', ''off'')]\<rparr>)"
  by (simp add: example_names query_datasets_prop_def dict_of_def full_cores_world_def
      example_world_def example_dataset_def)

theorem setup_datasets_cores_quota_witness:
  "zfs_get example_world ''tank/.system/cores'' = None
   \<and> setup_dataset example_env
        (query_datasets_prop example_world (map fst (get_datasets (ctdb_vol_name example_env) ''tank'' ''a1'')))
        ''tank/.system/cores'' example_world
      = zfs_create example_env ''tank/.system/cores''
          [(''mountpoint'', ''legacy''), (''readonly'', ''off''), (''snapdir'', ''hidden''), (''quota'', ''1G'')]
          example_world
   \<and> 1024 ^ 3 \<le> ds_used (example_dataset ''tank/.system/cores'' (3 * 1024 ^ 3) (100 * 1024 ^ 3))
   \<and> fst (setup_dataset example_env
        (query_datasets_prop full_cores_world (map fst (get_datasets (ctdb_vol_name example_env) ''tank'' ''a1'')))
        ''tank/.system/cores'' full_cores_world) = Inr ()
   \<and> trace (snd (setup_dataset example_env
        (query_datasets_prop full_cores_world (map fst (get_datasets (ctdb_vol_name example_env) ''tank'' ''a1'')))
        ''tank/.system/cores'' full_cores_world))
      = [ZfsDelete ''tank/.system/cores'',
         ZfsCreate ''tank/.system/cores''
           [(''mountpoint'', ''legacy''), (''readonly'', ''off''), (''snapdir'', ''hidden''), (''quota'', ''1G'')]]
   \<and> fst (setup_dataset no_delete_env
        (query_datasets_prop full_cores_world (map fst (get_datasets (ctdb_vol_name example_env) ''tank'' ''a1'')))
        ''tank/.system/cores'' full_cores_world) = Inr ()
   \<and> trace (snd (setup_dataset no_delete_env
        (query_datasets_prop full_cores_world (map fst (get_datasets (ctdb_vol_name example_env) ''tank'' ''a1'')))
        ''tank/.system/cores'' full_cores_world))
      = [ZfsDelete ''tank/.system/cores'',
         LogWarning ''Failed to replace dataset [%s].'' [''tank/.system/cores'']]"
proof -
  let ?d = "(example_dataset ''tank/.system/cores'' (3 * 1024 ^ 3) (100 * 1024 ^ 3))
        \<lparr>ds_props := [(''mountpoint'', ''legacy''), (''readonly'', ''off''), (''snapdir'', ''hidden''),
                      (''quota'', ''1G''), (''acltype'', ''off'')]\<rparr>"
  have g: "zfs_get example_world ''tank/.system/cores'' = None"
    "zfs_get full_cores_world ''tank/.system/cores'' \<noteq> None"
    by (simp_all add: zfs_get_def example_world_def full_cores_world_def example_dataset_def)
  have u: "1024 ^ 3 \<le> ds_used ?d"
    "1024 ^ 3 \<le> ds_used (example_dataset ''tank/.system/cores'' (3 * 1024 ^ 3) (100 * 1024 ^ 3))"
    by (simp_all add: example_dataset_def)
  have o: "zfs_delete_error example_env ''tank/.system/cores'' = None"
    "zfs_create_error example_env ''tank/.system/cores'' = None"
    "zfs_delete_error no_delete_env ''tank/.system/cores'' \<noteq> None"
    by (simp_all add: example_env_def no_delete_env_def)
  have t: "trace example_world = []" "trace full_cores_world = []"
    by (simp_all add: example_world_def full_cores_world_def)
  have app: "''tank'' @ ''/.system/cores'' = ''tank/.system/cores''" by simp
  note A = setup_datasets_cores_quota[where env = example_env and pool = "''tank''" and uuid = "''a1''"
      and w = example_world and ?w1.0 = example_world, unfolded Let_def app]
  note B = setup_datasets_cores_quota[where env = example_env and pool = "''tank''" and uuid = "''a1''"
      and w = full_cores_world and ?w1.0 = full_cores_world and d = ?d, unfolded Let_def app]
  note C = setup_datasets_cores_quota[where env = no_delete_env and pool = "''tank''" and uuid = "''a1''"
      and w = full_cores_world and ?w1.0 = full_cores_world and d = ?d, unfolded Let_def app example_names(2)]
  from A g(1) have 1: "setup_dataset example_env
        (query_datasets_prop example_world (map fst (get_datasets (ctdb_vol_name example_env) ''tank'' ''a1'')))
        ''tank/.system/cores'' example_world
      = zfs_create example_env ''tank/.system/cores''
          [(''mountpoint'', ''legacy''), (''readonly'', ''off''), (''snapdir'', ''hidden''), (''quota'', ''1G'')]
          example_world"
    by blast
  from B full_cores_snapshot u(1) g(2) o(1,2)
  have 2: "fst (setup_dataset example_env
        (query_datasets_prop full_cores_world (map fst (get_datasets (ctdb_vol_name example_env) ''tank'' ''a1'')))
        ''tank/.system/cores'' full_cores_world) = Inr ()"
    and 3: "trace (snd (setup_dataset example_env
        (query_datasets_prop full_cores_world (map fst (get_datasets (ctdb_vol_name example_env) ''tank'' ''a1'')))
        ''tank/.system/cores'' full_cores_world))
      = trace full_cores_world @ [ZfsDelete ''tank/.system/cores'',
         ZfsCreate ''tank/.system/cores''
           [(''mountpoint'', ''legacy''), (''readonly'', ''off''), (''snapdir'', ''hidden''), (''quota'', ''1G'')]]"
    by blast+
  from C full_cores_snapshot u(1) o(3)
  have 4: "fst (setup_dataset no_delete_env
        (query_datasets_prop full_cores_world (map fst (get_datasets (ctdb_vol_name example_env) ''tank'' ''a1'')))
        ''tank/.system/cores'' full_cores_world) = Inr ()"
    and 5: "snd (setup_dataset no_delete_env
        (query_datasets_prop full_cores_world (map fst (get_datasets (ctdb_vol_name example_env) ''tank'' ''a1'')))
        ''tank/.system/cores'' full_cores_world)
      = emit (LogWarning ''Failed to replace dataset [%s].'' [''tank/.system/cores''])
          (emit (ZfsDelete ''tank/.system/cores'') full_cores_world)"
    by blast+
  from g(1) 1 u(2) 2 3 4 5 t show ?thesis by simp
qed

end
